theory Spec2Isabelle
  imports Main
begin

section \<open>Constants and data of producer-consumer.c\<close>

text \<open>
  The program moves one text message from a producer process to a consumer process, over a
  Unix domain socket or through a System V shared memory segment guarded by three POSIX
  named semaphores. The model below is sequential: one process runs at a time against an
  explicit state of the operating system (the \<open>world\<close>), and a call that would suspend the
  process for ever, because no other process is there to wake it, is an outcome of the run.
\<close>

definition MAX_MESSAGE_LENGTH :: nat where
  "MAX_MESSAGE_LENGTH = 1024"

text \<open>The largest value of a semaphore (\<open>INT_MAX\<close> on Linux).\<close>

definition SEM_VALUE_MAX :: nat where
  "SEM_VALUE_MAX = 2147483647"

definition NUL :: char where
  "NUL = CHR 0x00"

definition NL :: char where
  "NL = CHR 0x0A"

definition mutex_sem :: string where
  "mutex_sem = ''/mutex_sem''"

definition empty_sem :: string where
  "empty_sem = ''/empty_sem''"

definition full_sem :: string where
  "full_sem = ''/full_sem''"

text \<open>
  \<open>Arguments\<close>: the \<open>int\<close> flags only ever hold 0 or 1 and are booleans here; \<open>message\<close> is
  a \<open>char *\<close>, \<open>None\<close> being the null pointer, and \<open>Some s\<close> a pointer to the bytes \<open>s\<close>
  followed by the terminating zero byte.
\<close>

record Arguments =
  is_producer :: bool
  is_consumer :: bool
  message :: "string option"
  queue_depth :: int
  use_socket :: bool
  use_shared_memory :: bool
  enable_echo :: bool

text \<open>\<open>Queue\<close>: the mailbox; \<open>message\<close> is the array of \<open>MAX_MESSAGE_LENGTH\<close> bytes.\<close>

record Queue =
  message :: string
  is_empty :: int

text \<open>How a run of a function ends.\<close>

datatype fault =
  BadSemHandle          \<comment> \<open>\<open>SEM_FAILED\<close> passed to \<open>sem_wait\<close> or \<open>sem_post\<close>\<close>
| BufferOverflow        \<comment> \<open>a write past the end of a 1024-byte array\<close>
| BadPointer            \<comment> \<open>a null \<open>message\<close>, or \<open>shared_queue\<close> with no segment behind it\<close>

datatype outcome =
  Return                \<comment> \<open>the function returns to \<open>main\<close>\<close>
| Exit int              \<comment> \<open>the process ends with this status\<close>
| Blocked string        \<comment> \<open>suspended for ever in the named call\<close>
| Undefined fault       \<comment> \<open>undefined behaviour: the program chooses no exit status\<close>

text \<open>
  The log of a run: the semaphore operations that took effect, the accesses to the mailbox
  and the removals of named objects, in program order.
\<close>

datatype event =
  SemWait string        \<comment> \<open>\<open>sem_wait\<close> returned: one unit taken\<close>
| SemPost string        \<comment> \<open>\<open>sem_post\<close> called on a valid handle\<close>
| WriteMessage string   \<comment> \<open>\<open>strcpy\<close> into the mailbox\<close>
| ReadMessage string    \<comment> \<open>\<open>strcpy\<close> out of the mailbox; the string copied\<close>
| SetIsEmpty int        \<comment> \<open>assignment to \<open>is_empty\<close>\<close>
| ShmRemove             \<comment> \<open>\<open>shmctl(shmid, IPC_RMID, NULL)\<close>\<close>
| SemUnlink string      \<comment> \<open>\<open>sem_unlink\<close>\<close>

text \<open>What the other end of the socket does, seen from the consumer.\<close>

datatype client =
  NoClient              \<comment> \<open>nobody connects: \<open>accept\<close> never returns\<close>
| AcceptFails
| RecvFails
| Delivers string       \<comment> \<open>the bytes queued on the connection when \<open>recv\<close> runs\<close>

text \<open>
  The state of the operating system and of the process's standard streams. \<open>ftok_ok\<close>,
  \<open>shmget_ok\<close>, \<open>shmat_ok\<close>, \<open>socket_ok\<close>, \<open>bind_ok\<close>, \<open>listen_ok\<close> and \<open>send_ok\<close> say whether
  the system lets the call of that name succeed (permissions, memory, limits): these are
  the calls whose result the program tests. \<open>shm_seg\<close> is the segment under the key of
  \<open>ftok("/tmp", 'Q')\<close>, \<open>sems\<close> the named semaphores with their values.
\<close>

record world =
  ftok_ok :: bool
  shmget_ok :: bool
  shmat_ok :: bool
  shm_seg :: "Queue option"
  sems :: "string \<Rightarrow> nat option"
  socket_ok :: bool
  bind_ok :: bool
  listen_ok :: bool
  client :: client
  listener :: bool
  send_ok :: bool
  sent :: string
  socket_file :: bool
  stdout :: string
  stderr :: "string list"
  trace :: "event list"

text \<open>A semaphore handle: the name it was opened under, \<open>None\<close> for \<open>SEM_FAILED\<close>.\<close>

type_synonym sem_t = "string option"

section \<open>Library and system calls\<close>

text \<open>The string a \<open>char *\<close> denotes: the bytes before the first zero byte.\<close>

definition c_str :: "string \<Rightarrow> string" where
  "c_str mem = takeWhile (\<lambda>c. c \<noteq> NUL) mem"

text \<open>
  \<open>strcpy\<close> into an array of \<open>cap\<close> bytes from the memory \<open>src\<close>: it copies the string and
  its terminating zero, \<open>length (c_str src) + 1\<close> bytes, whatever \<open>cap\<close> is. The result is
  the string copied, or \<open>None\<close> when the copy runs past the end of the source or of the
  destination.
\<close>

definition strcpy :: "nat \<Rightarrow> string \<Rightarrow> string option" where
  "strcpy cap src =
     (if NUL \<in> set src \<and> length (c_str src) + 1 \<le> cap then Some (c_str src) else None)"

text \<open>The array \<open>buf\<close> after a string and its terminator were copied to its start.\<close>

definition store_str :: "string \<Rightarrow> string \<Rightarrow> string" where
  "store_str buf s = s @ NUL # drop (length s + 1) buf"

definition perror :: "string \<Rightarrow> world \<Rightarrow> world" where
  "perror s w = w\<lparr>stderr := stderr w @ [s]\<rparr>"

definition fprintf_stderr :: "string \<Rightarrow> world \<Rightarrow> world" where
  "fprintf_stderr s w = w\<lparr>stderr := stderr w @ [s]\<rparr>"

text \<open>\<open>printf("%s\n", s)\<close>.\<close>

definition printf_line :: "string \<Rightarrow> world \<Rightarrow> world" where
  "printf_line s w = w\<lparr>stdout := stdout w @ s @ [NL]\<rparr>"

text \<open>
  \<open>shmget(key, sizeof(Queue), IPC_CREAT | 0666)\<close>: the segment under the key if there is
  one, a new zero-filled segment otherwise.
\<close>

definition new_Queue :: Queue where
  "new_Queue = \<lparr>message = replicate MAX_MESSAGE_LENGTH NUL, is_empty = 0\<rparr>"

definition shmget_creat :: "world \<Rightarrow> world option" where
  "shmget_creat w =
     (if \<not> shmget_ok w then None
      else case shm_seg w of
             Some q \<Rightarrow> Some w
           | None \<Rightarrow> Some (w\<lparr>shm_seg := Some new_Queue\<rparr>))"

text \<open>\<open>shmget(key, sizeof(Queue), 0666)\<close>: fails when there is no segment under the key.\<close>

definition shmget_existing :: "world \<Rightarrow> world option" where
  "shmget_existing w =
     (if \<not> shmget_ok w then None
      else case shm_seg w of
             Some q \<Rightarrow> Some w
           | None \<Rightarrow> None)"

text \<open>
  \<open>sem_open(name, O_CREAT, 0666, value)\<close>: an existing semaphore is opened and \<open>value\<close> is
  ignored; otherwise the semaphore is created with \<open>value\<close>, which is converted to
  \<open>unsigned int\<close> and refused when above \<open>SEM_VALUE_MAX\<close>.
\<close>

definition sem_open_creat :: "string \<Rightarrow> int \<Rightarrow> world \<Rightarrow> sem_t \<times> world" where
  "sem_open_creat name v w =
     (case sems w name of
        Some c \<Rightarrow> (Some name, w)
      | None \<Rightarrow>
          (let u = nat (v mod 2 ^ 32)
           in if u > SEM_VALUE_MAX then (None, w)
              else (Some name, w\<lparr>sems := (sems w)(name \<mapsto> u)\<rparr>)))"

text \<open>\<open>sem_open(name, 0)\<close>: \<open>SEM_FAILED\<close> when no semaphore has this name.\<close>

definition sem_open_existing :: "string \<Rightarrow> world \<Rightarrow> sem_t \<times> world" where
  "sem_open_existing name w =
     (case sems w name of
        Some c \<Rightarrow> (Some name, w)
      | None \<Rightarrow> (None, w))"

text \<open>
  \<open>sem_wait\<close>: takes one unit; with the value at 0 the process is suspended, and in a
  sequential run nothing wakes it. \<open>SEM_FAILED\<close> is not a semaphore: using it is undefined
  behaviour (a null pointer dereference with glibc).
\<close>

definition sem_wait :: "sem_t \<Rightarrow> world \<Rightarrow> outcome + world" where
  "sem_wait h w =
     (case h of
        None \<Rightarrow> Inl (Undefined BadSemHandle)
      | Some name \<Rightarrow>
          (case sems w name of
             None \<Rightarrow> Inl (Undefined BadSemHandle)
           | Some c \<Rightarrow>
               if c = 0 then Inl (Blocked name)
               else Inr (w\<lparr>sems := (sems w)(name \<mapsto> c - 1),
                           trace := trace w @ [SemWait name]\<rparr>)))"

text \<open>
  \<open>sem_post\<close>: adds one unit and returns 0, or returns -1 (\<open>EOVERFLOW\<close>) with the value
  unchanged when it is at \<open>SEM_VALUE_MAX\<close>.
\<close>

definition sem_post :: "sem_t \<Rightarrow> world \<Rightarrow> outcome + int \<times> world" where
  "sem_post h w =
     (case h of
        None \<Rightarrow> Inl (Undefined BadSemHandle)
      | Some name \<Rightarrow>
          (case sems w name of
             None \<Rightarrow> Inl (Undefined BadSemHandle)
           | Some c \<Rightarrow>
               if c \<ge> SEM_VALUE_MAX then Inr (- 1, w\<lparr>trace := trace w @ [SemPost name]\<rparr>)
               else Inr (0, w\<lparr>sems := (sems w)(name \<mapsto> c + 1),
                              trace := trace w @ [SemPost name]\<rparr>)))"

text \<open>\<open>shmctl(shmid, IPC_RMID, NULL)\<close> and \<open>sem_unlink(name)\<close>.\<close>

definition shmctl_rmid :: "world \<Rightarrow> world" where
  "shmctl_rmid w = w\<lparr>shm_seg := None, trace := trace w @ [ShmRemove]\<rparr>"

definition sem_unlink :: "string \<Rightarrow> world \<Rightarrow> world" where
  "sem_unlink name w = w\<lparr>sems := (sems w)(name := None), trace := trace w @ [SemUnlink name]\<rparr>"

section \<open>The shared-memory transport\<close>

text \<open>
  \<open>shmdt\<close> and \<open>sem_close\<close> release what the process holds and leave the named objects
  as they are: they change nothing in the \<open>world\<close> and are not written below.

  The three \<open>sem_open\<close> calls of the producer (\<open>mutex\<close>, \<open>empty\<close>, \<open>full\<close>). Their results
  are not tested.
\<close>

definition producer_sem_open :: "Arguments \<Rightarrow> world \<Rightarrow> (sem_t \<times> sem_t \<times> sem_t) \<times> world" where
  "producer_sem_open args w =
     (let (mutex, w1) = sem_open_creat mutex_sem 1 w;
          (empty', w2) = sem_open_creat empty_sem (queue_depth args) w1;
          (full, w3) = sem_open_creat full_sem 0 w2
      in ((mutex, empty', full), w3))"

text \<open>From \<open>sem_wait(empty)\<close> to the end of \<open>producer_shared_memory\<close>.\<close>

definition producer_transfer :: "Arguments \<Rightarrow> sem_t \<times> sem_t \<times> sem_t \<Rightarrow> world \<Rightarrow> outcome \<times> world" where
  "producer_transfer args h w =
     (case h of (mutex, empty', full) \<Rightarrow>
     (case sem_wait empty' w of Inl oc \<Rightarrow> (oc, w) | Inr w1 \<Rightarrow>
     (case sem_wait mutex w1 of Inl oc \<Rightarrow> (oc, w1) | Inr w2 \<Rightarrow>
     (case Arguments.message args of None \<Rightarrow> (Undefined BadPointer, w2) | Some msg \<Rightarrow>
     (case shm_seg w2 of None \<Rightarrow> (Undefined BadPointer, w2) | Some q \<Rightarrow>
     (case strcpy MAX_MESSAGE_LENGTH (msg @ [NUL]) of
        None \<Rightarrow> (Undefined BufferOverflow, w2)
      | Some s \<Rightarrow>
     (let w3 = w2\<lparr>shm_seg := Some (q\<lparr>message := store_str (message q) s, is_empty := 0\<rparr>),
                 trace := trace w2 @ [WriteMessage s, SetIsEmpty 0]\<rparr>;
          w4 = (if enable_echo args then printf_line s w3 else w3)
      in
     (case sem_post mutex w4 of Inl oc \<Rightarrow> (oc, w4) | Inr (r1, w5) \<Rightarrow>
     (case sem_post full w5 of Inl oc \<Rightarrow> (oc, w5) | Inr (r2, w6) \<Rightarrow>
        (Return, w6))))))))))"

definition producer_shared_memory :: "Arguments \<Rightarrow> world \<Rightarrow> outcome \<times> world" where
  "producer_shared_memory args w =
     (if \<not> ftok_ok w then (Exit 1, perror ''ftok'' w)
      else (case shmget_creat w of
        None \<Rightarrow> (Exit 1, perror ''shmget'' w)
      | Some w1 \<Rightarrow>
          if \<not> shmat_ok w1 then (Exit 1, perror ''shmat'' w1)
          else (case producer_sem_open args w1 of (h, w2) \<Rightarrow> producer_transfer args h w2)))"

text \<open>The three \<open>sem_open\<close> calls of the consumer. Their results are not tested either.\<close>

definition consumer_sem_open :: "world \<Rightarrow> (sem_t \<times> sem_t \<times> sem_t) \<times> world" where
  "consumer_sem_open w =
     (let (mutex, w1) = sem_open_existing mutex_sem w;
          (empty', w2) = sem_open_existing empty_sem w1;
          (full, w3) = sem_open_existing full_sem w2
      in ((mutex, empty', full), w3))"

text \<open>The removal of the four named objects that ends \<open>consumer_shared_memory\<close>.\<close>

definition consumer_remove :: "world \<Rightarrow> world" where
  "consumer_remove w =
     sem_unlink full_sem (sem_unlink empty_sem (sem_unlink mutex_sem (shmctl_rmid w)))"

text \<open>From \<open>sem_wait(full)\<close> to the end of \<open>consumer_shared_memory\<close>.\<close>

definition consumer_transfer :: "Arguments \<Rightarrow> sem_t \<times> sem_t \<times> sem_t \<Rightarrow> world \<Rightarrow> outcome \<times> world" where
  "consumer_transfer args h w =
     (case h of (mutex, empty', full) \<Rightarrow>
     (case sem_wait full w of Inl oc \<Rightarrow> (oc, w) | Inr w1 \<Rightarrow>
     (case sem_wait mutex w1 of Inl oc \<Rightarrow> (oc, w1) | Inr w2 \<Rightarrow>
     (case shm_seg w2 of None \<Rightarrow> (Undefined BadPointer, w2) | Some q \<Rightarrow>
     (case strcpy MAX_MESSAGE_LENGTH (message q) of
        None \<Rightarrow> (Undefined BufferOverflow, w2)
      | Some buffer \<Rightarrow>
     (let w3 = w2\<lparr>shm_seg := Some (q\<lparr>is_empty := 1\<rparr>),
                 trace := trace w2 @ [ReadMessage buffer, SetIsEmpty 1]\<rparr>;
          w4 = (if enable_echo args then printf_line buffer w3 else w3)
      in
     (case sem_post mutex w4 of Inl oc \<Rightarrow> (oc, w4) | Inr (r1, w5) \<Rightarrow>
     (case sem_post empty' w5 of Inl oc \<Rightarrow> (oc, w5) | Inr (r2, w6) \<Rightarrow>
        (Return, consumer_remove w6)))))))))"

definition consumer_shared_memory :: "Arguments \<Rightarrow> world \<Rightarrow> outcome \<times> world" where
  "consumer_shared_memory args w =
     (if \<not> ftok_ok w then (Exit 1, perror ''ftok'' w)
      else (case shmget_existing w of
        None \<Rightarrow> (Exit 1, perror ''shmget'' w)
      | Some w1 \<Rightarrow>
          if \<not> shmat_ok w1 then (Exit 1, perror ''shmat'' w1)
          else (case consumer_sem_open w1 of (h, w2) \<Rightarrow> consumer_transfer args h w2)))"

section \<open>The socket transport\<close>

text \<open>
  \<open>send(sock, message, strlen(message), 0)\<close> hands the whole string to the connection:
  nothing is cut on the producer's side.
\<close>

definition producer_socket :: "Arguments \<Rightarrow> world \<Rightarrow> outcome \<times> world" where
  "producer_socket args w =
     (if \<not> socket_ok w then (Exit 1, perror ''socket'' w)
      else if \<not> listener w then (Exit 1, perror ''connect'' w)
      else (case Arguments.message args of
        None \<Rightarrow> (Undefined BadPointer, w)
      | Some msg \<Rightarrow>
          if \<not> send_ok w then (Exit 1, perror ''send'' w)
          else
            (let w1 = w\<lparr>sent := sent w @ c_str (msg @ [NUL])\<rparr>;
                 w2 = (if enable_echo args then printf_line (c_str (msg @ [NUL])) w1 else w1)
             in (Return, w2))))"

text \<open>
  \<open>recv(client_sock, buffer, sizeof(buffer), 0)\<close> stores at most \<open>MAX_MESSAGE_LENGTH\<close> of
  the queued bytes and returns how many; \<open>buffer[received] = '\0'\<close> then writes at index
  \<open>received\<close> of the array of \<open>MAX_MESSAGE_LENGTH\<close> bytes, whose last index is
  \<open>MAX_MESSAGE_LENGTH - 1\<close>.
\<close>

definition recv :: "string \<Rightarrow> nat \<Rightarrow> string" where
  "recv queued n = take n queued"

definition index_in_bounds :: "nat \<Rightarrow> nat \<Rightarrow> bool" where
  "index_in_bounds i n = (i < n)"

definition consumer_socket :: "Arguments \<Rightarrow> world \<Rightarrow> outcome \<times> world" where
  "consumer_socket args w =
     (if \<not> socket_ok w then (Exit 1, perror ''socket'' w)
      else
       (let w1 = w\<lparr>socket_file := False\<rparr>
        in if \<not> bind_ok w1 then (Exit 1, perror ''bind'' w1)
      else
       (let w2 = w1\<lparr>socket_file := True\<rparr>
        in if \<not> listen_ok w2 then (Exit 1, perror ''listen'' w2)
      else
       (case client w2 of
          NoClient \<Rightarrow> (Blocked ''accept'', w2)
        | AcceptFails \<Rightarrow> (Exit 1, perror ''accept'' w2)
        | RecvFails \<Rightarrow> (Exit 1, perror ''recv'' w2)
        | Delivers queued \<Rightarrow>
           (let data = recv queued MAX_MESSAGE_LENGTH;
                received = length data
            in if \<not> index_in_bounds received MAX_MESSAGE_LENGTH
               then (Undefined BufferOverflow, w2)
               else
                (let buffer = data @ [NUL];
                     w3 = (if enable_echo args then printf_line (c_str buffer) w2 else w2)
                 in (Return, w3\<lparr>socket_file := False\<rparr>)))))))"

section \<open>Command line and \<open>main\<close>\<close>

text \<open>
  \<open>getopt(argc, argv, "pcm:q:use")\<close> is taken by its results: the list of options it returns
  one after the other, each \<open>-m\<close> and \<open>-q\<close> with its \<open>optarg\<close>; \<open>Opt_unknown\<close> is the \<open>'?'\<close> it
  returns for a letter that is not in the option string and for a missing option argument.
  The program leaves \<open>opterr\<close> at 1, so \<open>getopt\<close> has by then written a line of its own on
  the standard error stream (\<open>invalid option\<close>, or \<open>option requires an argument\<close>):
  \<open>Opt_unknown\<close> carries that line.
\<close>

datatype opt =
  Opt_p | Opt_c | Opt_m string | Opt_q string | Opt_u | Opt_s | Opt_e | Opt_unknown string

text \<open>
  \<open>atoi\<close> as glibc has it, \<open>(int) strtol(s, NULL, 10)\<close> with a 64-bit \<open>long\<close>: white space,
  an optional sign, the leading digits (0 when there are none), the value clamped to the
  range of \<open>long\<close> and then cut to 32 bits.
\<close>

definition isspace :: "char \<Rightarrow> bool" where
  "isspace c = (c \<in> set [CHR '' '', CHR 0x09, CHR 0x0A, CHR 0x0B, CHR 0x0C, CHR 0x0D])"

definition isdigit :: "char \<Rightarrow> bool" where
  "isdigit c = (48 \<le> (of_char c :: nat) \<and> (of_char c :: nat) \<le> 57)"

fun digits_value :: "int \<Rightarrow> string \<Rightarrow> int" where
  "digits_value acc [] = acc"
| "digits_value acc (c # cs) =
     (if isdigit c then digits_value (acc * 10 + (of_char c - 48)) cs else acc)"

definition strtol :: "string \<Rightarrow> int" where
  "strtol s =
     (let s1 = dropWhile isspace s;
          neg = (case s1 of [] \<Rightarrow> False | c # cs \<Rightarrow> c = CHR ''-'');
          s2 = (case s1 of [] \<Rightarrow> [] | c # cs \<Rightarrow> if c = CHR ''-'' \<or> c = CHR ''+'' then cs else s1);
          v = digits_value 0 s2
      in max (- (2 ^ 63)) (min (2 ^ 63 - 1) (if neg then - v else v)))"

definition atoi :: "string \<Rightarrow> int" where
  "atoi s = (strtol s + 2 ^ 31) mod 2 ^ 32 - 2 ^ 31"

text \<open>\<open>Arguments args = {0}\<close>.\<close>

definition args_zero :: Arguments where
  "args_zero = \<lparr>is_producer = False, is_consumer = False, message = None, queue_depth = 0,
                use_socket = False, use_shared_memory = False, enable_echo = False\<rparr>"

text \<open>
  The \<open>while\<close> loop of \<open>parse_arguments\<close>; \<open>Inl\<close> when it reaches the \<open>default\<close> case, with the
  line \<open>getopt\<close> wrote before it returned \<open>'?'\<close>.
\<close>

fun getopt_loop :: "opt list \<Rightarrow> Arguments \<Rightarrow> string + Arguments" where
  "getopt_loop [] args = Inr args"
| "getopt_loop (Opt_p # os) args = getopt_loop os (args\<lparr>is_producer := True\<rparr>)"
| "getopt_loop (Opt_c # os) args = getopt_loop os (args\<lparr>is_consumer := True\<rparr>)"
| "getopt_loop (Opt_m optarg # os) args = getopt_loop os (args\<lparr>Arguments.message := Some optarg\<rparr>)"
| "getopt_loop (Opt_q optarg # os) args = getopt_loop os (args\<lparr>queue_depth := atoi optarg\<rparr>)"
| "getopt_loop (Opt_u # os) args = getopt_loop os (args\<lparr>use_socket := True\<rparr>)"
| "getopt_loop (Opt_s # os) args = getopt_loop os (args\<lparr>use_shared_memory := True\<rparr>)"
| "getopt_loop (Opt_e # os) args = getopt_loop os (args\<lparr>enable_echo := True\<rparr>)"
| "getopt_loop (Opt_unknown line # os) args = Inl line"

text \<open>
  The program's own diagnostics are recorded by their format string. In the \<open>default\<close> case
  the line of \<open>getopt\<close> is on the standard error stream before the usage line.
\<close>

definition parse_arguments :: "opt list \<Rightarrow> Arguments \<Rightarrow> world \<Rightarrow> outcome \<times> world + Arguments" where
  "parse_arguments opts args w =
     (case getopt_loop opts args of
        Inl line \<Rightarrow>
          Inl (Exit 1,
               fprintf_stderr ''Usage: %s -p|-c -m message -q depth -u|-s [-e]''
                 (fprintf_stderr line w))
      | Inr a \<Rightarrow>
          if Arguments.message a = None
          then Inl (Exit 1, fprintf_stderr ''Error: Message (-m) is required'' w)
          else if queue_depth a \<le> 0
          then Inl (Exit 1, fprintf_stderr ''Error: Queue depth (-q) must be positive'' w)
          else Inr a)"

definition main :: "opt list \<Rightarrow> world \<Rightarrow> outcome \<times> world" where
  "main opts w =
     (case parse_arguments opts args_zero w of
        Inl r \<Rightarrow> r
      | Inr args \<Rightarrow>
          if \<not> (is_producer args \<noteq> is_consumer args)
          then (Exit 1, fprintf_stderr ''Error: Must specify exactly one of -p or -c'' w)
          else if use_socket args \<and> use_shared_memory args
          then (Exit 1, fprintf_stderr ''Error: Cannot use both socket and shared memory'' w)
          else if \<not> use_socket args \<and> \<not> use_shared_memory args
          then (Exit 1, fprintf_stderr ''Error: Must specify either -u or -s'' w)
          else
           (case (if use_socket args
                  then (if is_producer args then producer_socket args w
                        else consumer_socket args w)
                  else (if is_producer args then producer_shared_memory args w
                        else consumer_shared_memory args w)) of
              (Return, w') \<Rightarrow> (Exit 0, w')
            | (oc, w') \<Rightarrow> (oc, w')))"

text \<open>A system with none of the named objects, where every tested call would succeed.\<close>

definition fresh_world :: world where
  "fresh_world =
     \<lparr>ftok_ok = True, shmget_ok = True, shmat_ok = True, shm_seg = None,
      sems = (\<lambda>n. None), socket_ok = True, bind_ok = True, listen_ok = True,
      client = NoClient, listener = False, send_ok = True, sent = [],
      socket_file = False, stdout = [], stderr = [], trace = []\<rparr>"

section \<open>The log of a run\<close>

text \<open>An access to the mailbox: to its \<open>message\<close> array or to its \<open>is_empty\<close> flag.\<close>

definition mailbox_access :: "event \<Rightarrow> bool" where
  "mailbox_access e =
     (case e of WriteMessage s \<Rightarrow> True | ReadMessage s \<Rightarrow> True | SetIsEmpty v \<Rightarrow> True
      | _ \<Rightarrow> False)"

text \<open>
  No access to the mailbox happens while the mutex is not held: \<open>held\<close> is set by a
  \<open>sem_wait\<close> on the mutex and cleared by the \<open>sem_post\<close> on it.
\<close>

fun guarded :: "bool \<Rightarrow> event list \<Rightarrow> bool" where
  "guarded held [] = True"
| "guarded held (e # es) =
     (if e = SemWait mutex_sem then guarded True es
      else if e = SemPost mutex_sem then guarded False es
      else if mailbox_access e then held \<and> guarded held es
      else guarded held es)"

text \<open>
  \<open>a\<close> and \<open>b\<close> both occur, and \<open>b\<close> occurs after the first \<open>a\<close> and not before it.
\<close>

definition precedes :: "event \<Rightarrow> event \<Rightarrow> event list \<Rightarrow> bool" where
  "precedes a b es =
     (a \<in> set es \<and> b \<in> set (dropWhile (\<lambda>e. e \<noteq> a) es)
      \<and> b \<notin> set (takeWhile (\<lambda>e. e \<noteq> a) es))"

text \<open>The events a run starting in \<open>w\<close> added to the log.\<close>

definition run_events :: "world \<Rightarrow> outcome \<times> world \<Rightarrow> event list" where
  "run_events w r = drop (length (trace w)) (trace (snd r))"

section \<open>The rules of the command line\<close>

text \<open>Whether \<open>getopt\<close> met an unknown option or a missing option argument.\<close>

fun has_unknown :: "opt list \<Rightarrow> bool" where
  "has_unknown [] = False"
| "has_unknown (Opt_unknown line # os) = True"
| "has_unknown (x # os) = has_unknown os"

text \<open>Whether a \<open>-m\<close> option is among the options.\<close>

fun has_m :: "opt list \<Rightarrow> bool" where
  "has_m [] = False"
| "has_m (Opt_m optarg # os) = True"
| "has_m (x # os) = has_m os"

text \<open>The argument of the last \<open>-q\<close>, \<open>None\<close> when there is no \<open>-q\<close>.\<close>

fun last_q :: "opt list \<Rightarrow> string option" where
  "last_q [] = None"
| "last_q (Opt_q optarg # os) = (case last_q os of None \<Rightarrow> Some optarg | Some s \<Rightarrow> Some s)"
| "last_q (x # os) = last_q os"

text \<open>
  The integer a text denotes, as a mathematical integer: white space, an optional sign, the
  leading decimal digits (0 when there are none). This is the number the user wrote,
  before any conversion to a machine integer.
\<close>

definition denoted_int :: "string \<Rightarrow> int" where
  "denoted_int s =
     (let s1 = dropWhile isspace s;
          neg = (case s1 of [] \<Rightarrow> False | c # cs \<Rightarrow> c = CHR ''-'');
          s2 = (case s1 of [] \<Rightarrow> [] | c # cs \<Rightarrow> if c = CHR ''-'' \<or> c = CHR ''+'' then cs else s1);
          v = digits_value 0 s2
      in if neg then - v else v)"

text \<open>
  The options break a rule of the command line: an unknown option or a missing option
  argument, not exactly one of \<open>-p\<close> and \<open>-c\<close>, not exactly one of \<open>-u\<close> and \<open>-s\<close>, no \<open>-m\<close>,
  no \<open>-q\<close>, or a \<open>-q\<close> whose argument denotes zero or a negative number. The last case is
  taken for the numbers of the range of \<open>int\<close>, from \<open>- 2 ^ 31\<close> on: a number below that range
  is not counted here, one way or the other.
\<close>

definition cli_violation :: "opt list \<Rightarrow> bool" where
  "cli_violation opts =
     (has_unknown opts
      \<or> (Opt_p \<in> set opts) = (Opt_c \<in> set opts)
      \<or> (Opt_u \<in> set opts) = (Opt_s \<in> set opts)
      \<or> \<not> has_m opts
      \<or> (case last_q opts of
            None \<Rightarrow> True
          | Some optarg \<Rightarrow> - (2 ^ 31) \<le> denoted_int optarg \<and> denoted_int optarg \<le> 0))"

section \<open>Example inputs\<close>

text \<open>
  \<open>-p -s -m hello -q 1\<close> and \<open>-c -s -m x -q 1 -e\<close> as \<open>parse_arguments\<close> leaves them, and the
  system as the first of them leaves it when it starts with none of the named objects.
\<close>

definition hello_producer :: Arguments where
  "hello_producer =
     args_zero\<lparr>is_producer := True, Arguments.message := Some ''hello'', queue_depth := 1,
               use_shared_memory := True\<rparr>"

definition echo_consumer :: Arguments where
  "echo_consumer =
     args_zero\<lparr>is_consumer := True, Arguments.message := Some ''x'', queue_depth := 1,
               use_shared_memory := True, enable_echo := True\<rparr>"

definition hello_posted :: world where
  "hello_posted = snd (producer_shared_memory hello_producer fresh_world)"

section \<open>Strings and semaphore names\<close>

lemma sem_names_distinct [simp]:
  "mutex_sem \<noteq> empty_sem" "mutex_sem \<noteq> full_sem" "empty_sem \<noteq> full_sem"
  "empty_sem \<noteq> mutex_sem" "full_sem \<noteq> mutex_sem" "full_sem \<noteq> empty_sem"
  by (simp_all add: mutex_sem_def empty_sem_def full_sem_def)

lemma c_str_terminated: "NUL \<notin> set s \<Longrightarrow> c_str (s @ NUL # rest) = s"
  unfolding c_str_def by (subst takeWhile_append2) auto

lemma c_str_no_NUL: "NUL \<notin> set (c_str mem)"
  unfolding c_str_def by (metis (mono_tags, lifting) set_takeWhileD)

lemma strcpy_terminated:
  "NUL \<notin> set s \<Longrightarrow>
   strcpy cap (s @ NUL # rest) = (if length s + 1 \<le> cap then Some s else None)"
  by (simp add: strcpy_def c_str_terminated)

lemma strcpy_Some:
  "strcpy cap src = Some s \<Longrightarrow> s = c_str src \<and> NUL \<notin> set s \<and> length s < cap"
  by (auto simp: strcpy_def c_str_no_NUL split: if_splits)

lemma letter_a_not_NUL [simp]: "CHR ''a'' \<noteq> NUL" "NUL \<noteq> CHR ''a''"
  by (simp_all add: NUL_def)

section \<open>The calls of the shared-memory transport, step by step\<close>

lemma sem_wait_Inr:
  assumes "sem_wait h w = Inr w'"
  obtains n c where "h = Some n" "sems w n = Some (Suc c)"
    "w' = w\<lparr>sems := (sems w)(n \<mapsto> c), trace := trace w @ [SemWait n]\<rparr>"
  using assms unfolding sem_wait_def
  by (cases h; cases "sems w (the h)"; cases "the (sems w (the h))")
     (auto split: if_splits)

lemma sem_wait_Some:
  "sems w n = Some (Suc c) \<Longrightarrow>
   sem_wait (Some n) w = Inr (w\<lparr>sems := (sems w)(n \<mapsto> c), trace := trace w @ [SemWait n]\<rparr>)"
  by (simp add: sem_wait_def)

lemma sem_post_Inr:
  assumes "sem_post h w = Inr (r, w')"
  obtains n c where "h = Some n" "sems w n = Some c"
    "w' = w\<lparr>sems := (sems w)(n \<mapsto> (if SEM_VALUE_MAX \<le> c then c else Suc c)),
             trace := trace w @ [SemPost n]\<rparr>"
    "r = (if SEM_VALUE_MAX \<le> c then - 1 else 0)"
  using assms unfolding sem_post_def
  by (cases h; cases "sems w (the h)")
     (auto split: if_splits simp: map_upd_triv)

lemma sem_post_Some:
  "sems w n = Some c \<Longrightarrow>
   sem_post (Some n) w =
     Inr (if SEM_VALUE_MAX \<le> c then - 1 else 0,
          w\<lparr>sems := (sems w)(n \<mapsto> (if SEM_VALUE_MAX \<le> c then c else Suc c)),
            trace := trace w @ [SemPost n]\<rparr>)"
  by (simp add: sem_post_def map_upd_triv)

lemma sem_wait_not_Return [simp]: "sem_wait h w \<noteq> Inl Return"
  by (simp add: sem_wait_def split: option.splits)

lemma sem_post_not_Return [simp]: "sem_post h w \<noteq> Inl Return"
  by (simp add: sem_post_def split: option.splits)

lemma producer_transfer_steps:
  assumes "producer_transfer a (m, e, f) w = (Return, w')"
  obtains w1 w2 msg q s r1 w5 r2 where
    "sem_wait e w = Inr w1" "sem_wait m w1 = Inr w2"
    "Arguments.message a = Some msg" "shm_seg w2 = Some q"
    "strcpy MAX_MESSAGE_LENGTH (msg @ [NUL]) = Some s"
    "sem_post m
       (if enable_echo a
        then printf_line s
              (w2\<lparr>shm_seg := Some (q\<lparr>message := store_str (message q) s, is_empty := 0\<rparr>),
                  trace := trace w2 @ [WriteMessage s, SetIsEmpty 0]\<rparr>)
        else w2\<lparr>shm_seg := Some (q\<lparr>message := store_str (message q) s, is_empty := 0\<rparr>),
                trace := trace w2 @ [WriteMessage s, SetIsEmpty 0]\<rparr>) = Inr (r1, w5)"
    "sem_post f w5 = Inr (r2, w')"
  using assms unfolding producer_transfer_def
  by (auto simp: Let_def split: sum.splits option.splits)

lemma producer_transfer_Return:
  assumes "producer_transfer a (Some mutex_sem, e, Some full_sem) w = (Return, w')"
    and "e = None \<or> e = Some empty_sem"
  obtains msg q s ce cm cf where
    "e = Some empty_sem"
    "sems w empty_sem = Some (Suc ce)" "sems w mutex_sem = Some (Suc cm)"
    "sems w full_sem = Some cf"
    "Arguments.message a = Some msg" "shm_seg w = Some q"
    "strcpy MAX_MESSAGE_LENGTH (msg @ [NUL]) = Some s"
    "w' = w\<lparr>shm_seg := Some (q\<lparr>message := store_str (message q) s, is_empty := 0\<rparr>),
             sems := (sems w)(empty_sem \<mapsto> ce,
                              mutex_sem \<mapsto> (if SEM_VALUE_MAX \<le> cm then cm else Suc cm),
                              full_sem \<mapsto> (if SEM_VALUE_MAX \<le> cf then cf else Suc cf)),
             stdout := stdout w @ (if enable_echo a then s @ [NL] else []),
             trace := trace w @ [SemWait empty_sem, SemWait mutex_sem, WriteMessage s,
                                 SetIsEmpty 0, SemPost mutex_sem, SemPost full_sem]\<rparr>"
proof -
  from assms(1) obtain w1 w2 msg q s r1 w5 r2 where
    st: "sem_wait e w = Inr w1" "sem_wait (Some mutex_sem) w1 = Inr w2"
    "Arguments.message a = Some msg" "shm_seg w2 = Some q"
    "strcpy MAX_MESSAGE_LENGTH (msg @ [NUL]) = Some s"
    "sem_post (Some mutex_sem)
       (if enable_echo a
        then printf_line s
              (w2\<lparr>shm_seg := Some (q\<lparr>message := store_str (message q) s, is_empty := 0\<rparr>),
                  trace := trace w2 @ [WriteMessage s, SetIsEmpty 0]\<rparr>)
        else w2\<lparr>shm_seg := Some (q\<lparr>message := store_str (message q) s, is_empty := 0\<rparr>),
                trace := trace w2 @ [WriteMessage s, SetIsEmpty 0]\<rparr>) = Inr (r1, w5)"
    "sem_post (Some full_sem) w5 = Inr (r2, w')"
    by (rule producer_transfer_steps)
  from st(1) assms(2) obtain ce where
    e: "e = Some empty_sem" and ce: "sems w empty_sem = Some (Suc ce)"
    and w1: "w1 = w\<lparr>sems := (sems w)(empty_sem \<mapsto> ce), trace := trace w @ [SemWait empty_sem]\<rparr>"
    by (auto elim!: sem_wait_Inr)
  from st(2) obtain cm where
    cm: "sems w1 mutex_sem = Some (Suc cm)"
    and w2: "w2 = w1\<lparr>sems := (sems w1)(mutex_sem \<mapsto> cm), trace := trace w1 @ [SemWait mutex_sem]\<rparr>"
    by (auto elim!: sem_wait_Inr)
  from st(6) obtain cm' where
    w5: "w5 = (if enable_echo a
        then printf_line s
              (w2\<lparr>shm_seg := Some (q\<lparr>message := store_str (message q) s, is_empty := 0\<rparr>),
                  trace := trace w2 @ [WriteMessage s, SetIsEmpty 0]\<rparr>)
        else w2\<lparr>shm_seg := Some (q\<lparr>message := store_str (message q) s, is_empty := 0\<rparr>),
                trace := trace w2 @ [WriteMessage s, SetIsEmpty 0]\<rparr>)
         \<lparr>sems := (sems w2)(mutex_sem \<mapsto> (if SEM_VALUE_MAX \<le> cm then cm else Suc cm)),
          trace := trace w2 @ [WriteMessage s, SetIsEmpty 0, SemPost mutex_sem]\<rparr>"
    using w2 by (auto elim!: sem_post_Inr simp: printf_line_def split: if_splits)
  from st(7) obtain cf where
    cf: "sems w5 full_sem = Some cf"
    and w': "w' = w5\<lparr>sems := (sems w5)(full_sem \<mapsto> (if SEM_VALUE_MAX \<le> cf then cf else Suc cf)),
                    trace := trace w5 @ [SemPost full_sem]\<rparr>"
    by (auto elim!: sem_post_Inr)
  have 1: "sems w mutex_sem = Some (Suc cm)" using cm w1 by simp
  have 2: "sems w full_sem = Some cf" using cf w5 w2 w1 by (simp split: if_splits)
  have 3: "shm_seg w = Some q" using st(4) w2 w1 by simp
  have 4: "w' = w\<lparr>shm_seg := Some (q\<lparr>message := store_str (message q) s, is_empty := 0\<rparr>),
             sems := (sems w)(empty_sem \<mapsto> ce,
                              mutex_sem \<mapsto> (if SEM_VALUE_MAX \<le> cm then cm else Suc cm),
                              full_sem \<mapsto> (if SEM_VALUE_MAX \<le> cf then cf else Suc cf)),
             stdout := stdout w @ (if enable_echo a then s @ [NL] else []),
             trace := trace w @ [SemWait empty_sem, SemWait mutex_sem, WriteMessage s,
                                 SetIsEmpty 0, SemPost mutex_sem, SemPost full_sem]\<rparr>"
    unfolding w' w5 w2 w1 by (simp add: printf_line_def)
  show thesis using that[OF e ce 1 2 st(3) 3 st(5) 4] .
qed

lemma producer_transfer_run:
  assumes "sems w empty_sem = Some (Suc ce)" "sems w mutex_sem = Some (Suc cm)"
    "sems w full_sem = Some cf"
    "Arguments.message a = Some msg" "shm_seg w = Some q"
    "strcpy MAX_MESSAGE_LENGTH (msg @ [NUL]) = Some s"
  shows "producer_transfer a (Some mutex_sem, Some empty_sem, Some full_sem) w =
    (Return,
     w\<lparr>shm_seg := Some (q\<lparr>message := store_str (message q) s, is_empty := 0\<rparr>),
             sems := (sems w)(empty_sem \<mapsto> ce,
                              mutex_sem \<mapsto> (if SEM_VALUE_MAX \<le> cm then cm else Suc cm),
                              full_sem \<mapsto> (if SEM_VALUE_MAX \<le> cf then cf else Suc cf)),
             stdout := stdout w @ (if enable_echo a then s @ [NL] else []),
             trace := trace w @ [SemWait empty_sem, SemWait mutex_sem, WriteMessage s,
                                 SetIsEmpty 0, SemPost mutex_sem, SemPost full_sem]\<rparr>)"
  using assms
  by (simp add: producer_transfer_def sem_wait_Some sem_post_Some printf_line_def Let_def)

lemma world_shm_seg_same: "shm_seg w = Some q \<Longrightarrow> w\<lparr>shm_seg := Some q\<rparr> = w"
  by (metis world.surjective world.update_convs(4))

lemma shmget_creat_eq:
  "shmget_creat w =
     (if shmget_ok w
      then Some (w\<lparr>shm_seg := Some (case shm_seg w of None \<Rightarrow> new_Queue | Some q \<Rightarrow> q)\<rparr>)
      else None)"
  by (simp add: shmget_creat_def world_shm_seg_same split: option.splits)

lemma sem_open_creat_eq:
  "sem_open_creat n v w =
     (if sems w n = None \<and> SEM_VALUE_MAX < nat (v mod 2 ^ 32) then (None, w)
      else (Some n,
            w\<lparr>sems := (sems w)(n \<mapsto> (case sems w n of None \<Rightarrow> nat (v mod 2 ^ 32) | Some c \<Rightarrow> c))\<rparr>))"
  by (simp add: sem_open_creat_def Let_def map_upd_triv split: option.splits)

lemma consumer_transfer_steps:
  assumes "consumer_transfer a (m, e, f) w = (Return, w')"
  obtains w1 w2 q s r1 w5 r2 w6 where
    "sem_wait f w = Inr w1" "sem_wait m w1 = Inr w2"
    "shm_seg w2 = Some q"
    "strcpy MAX_MESSAGE_LENGTH (message q) = Some s"
    "sem_post m
       (if enable_echo a
        then printf_line s
              (w2\<lparr>shm_seg := Some (q\<lparr>is_empty := 1\<rparr>),
                  trace := trace w2 @ [ReadMessage s, SetIsEmpty 1]\<rparr>)
        else w2\<lparr>shm_seg := Some (q\<lparr>is_empty := 1\<rparr>),
                trace := trace w2 @ [ReadMessage s, SetIsEmpty 1]\<rparr>) = Inr (r1, w5)"
    "sem_post e w5 = Inr (r2, w6)" "w' = consumer_remove w6"
  using assms unfolding consumer_transfer_def
  by (auto simp: Let_def split: sum.splits option.splits)

lemma consumer_transfer_Return:
  assumes "consumer_transfer a (m, e, f) w = (Return, w')"
    and "m = None \<or> m = Some mutex_sem" "e = None \<or> e = Some empty_sem"
    "f = None \<or> f = Some full_sem"
  obtains q s ce cm cf where
    "m = Some mutex_sem" "e = Some empty_sem" "f = Some full_sem"
    "sems w full_sem = Some (Suc cf)" "sems w mutex_sem = Some (Suc cm)"
    "sems w empty_sem = Some ce"
    "shm_seg w = Some q"
    "strcpy MAX_MESSAGE_LENGTH (message q) = Some s"
    "w' = w\<lparr>shm_seg := None,
             sems := (sems w)(mutex_sem := None, empty_sem := None, full_sem := None),
             stdout := stdout w @ (if enable_echo a then s @ [NL] else []),
             trace := trace w @ [SemWait full_sem, SemWait mutex_sem, ReadMessage s,
                                 SetIsEmpty 1, SemPost mutex_sem, SemPost empty_sem,
                                 ShmRemove, SemUnlink mutex_sem, SemUnlink empty_sem,
                                 SemUnlink full_sem]\<rparr>"
proof -
  from assms(1) obtain w1 w2 q s r1 w5 r2 w6 where
    st: "sem_wait f w = Inr w1" "sem_wait m w1 = Inr w2"
    "shm_seg w2 = Some q"
    "strcpy MAX_MESSAGE_LENGTH (message q) = Some s"
    "sem_post m
       (if enable_echo a
        then printf_line s
              (w2\<lparr>shm_seg := Some (q\<lparr>is_empty := 1\<rparr>),
                  trace := trace w2 @ [ReadMessage s, SetIsEmpty 1]\<rparr>)
        else w2\<lparr>shm_seg := Some (q\<lparr>is_empty := 1\<rparr>),
                trace := trace w2 @ [ReadMessage s, SetIsEmpty 1]\<rparr>) = Inr (r1, w5)"
    "sem_post e w5 = Inr (r2, w6)" "w' = consumer_remove w6"
    by (rule consumer_transfer_steps)
  from st(1) assms(4) obtain cf where
    f: "f = Some full_sem" and cf: "sems w full_sem = Some (Suc cf)"
    and w1: "w1 = w\<lparr>sems := (sems w)(full_sem \<mapsto> cf), trace := trace w @ [SemWait full_sem]\<rparr>"
    by (auto elim!: sem_wait_Inr)
  from st(2) assms(2) obtain cm where
    m: "m = Some mutex_sem" and cm: "sems w1 mutex_sem = Some (Suc cm)"
    and w2: "w2 = w1\<lparr>sems := (sems w1)(mutex_sem \<mapsto> cm), trace := trace w1 @ [SemWait mutex_sem]\<rparr>"
    by (auto elim!: sem_wait_Inr)
  from st(5) m have
    w5: "w5 = (if enable_echo a
        then printf_line s
              (w2\<lparr>shm_seg := Some (q\<lparr>is_empty := 1\<rparr>),
                  trace := trace w2 @ [ReadMessage s, SetIsEmpty 1]\<rparr>)
        else w2\<lparr>shm_seg := Some (q\<lparr>is_empty := 1\<rparr>),
                trace := trace w2 @ [ReadMessage s, SetIsEmpty 1]\<rparr>)
         \<lparr>sems := (sems w2)(mutex_sem \<mapsto> (if SEM_VALUE_MAX \<le> cm then cm else Suc cm)),
          trace := trace w2 @ [ReadMessage s, SetIsEmpty 1, SemPost mutex_sem]\<rparr>"
    using w2 by (auto elim!: sem_post_Inr simp: printf_line_def split: if_splits)
  from st(6) assms(3) obtain ce where
    e: "e = Some empty_sem" and ce: "sems w5 empty_sem = Some ce"
    and w6: "w6 = w5\<lparr>sems := (sems w5)(empty_sem \<mapsto> (if SEM_VALUE_MAX \<le> ce then ce else Suc ce)),
                    trace := trace w5 @ [SemPost empty_sem]\<rparr>"
    by (auto elim!: sem_post_Inr)
  have 1: "sems w mutex_sem = Some (Suc cm)" using cm w1 by simp
  have 2: "sems w empty_sem = Some ce" using ce w5 w2 w1 by (simp split: if_splits)
  have 3: "shm_seg w = Some q" using st(3) w2 w1 by simp
  have 4: "sems (consumer_remove w6) =
           (sems w)(mutex_sem := None, empty_sem := None, full_sem := None)"
    unfolding w6 w5 w2 w1
    by (auto simp: consumer_remove_def sem_unlink_def shmctl_rmid_def printf_line_def fun_eq_iff)
  have 5: "w' = w\<lparr>shm_seg := None,
             sems := (sems w)(mutex_sem := None, empty_sem := None, full_sem := None),
             stdout := stdout w @ (if enable_echo a then s @ [NL] else []),
             trace := trace w @ [SemWait full_sem, SemWait mutex_sem, ReadMessage s,
                                 SetIsEmpty 1, SemPost mutex_sem, SemPost empty_sem,
                                 ShmRemove, SemUnlink mutex_sem, SemUnlink empty_sem,
                                 SemUnlink full_sem]\<rparr>"
    unfolding st(7) 4[symmetric] unfolding w6 w5 w2 w1
    by (simp add: consumer_remove_def sem_unlink_def shmctl_rmid_def printf_line_def)
  show thesis using that[OF m e f cf 1 2 3 st(4) 5] .
qed

lemma consumer_transfer_run:
  assumes "sems w full_sem = Some (Suc cf)" "sems w mutex_sem = Some (Suc cm)"
    "sems w empty_sem = Some ce" "shm_seg w = Some q"
    "strcpy MAX_MESSAGE_LENGTH (message q) = Some s"
  shows "consumer_transfer a (Some mutex_sem, Some empty_sem, Some full_sem) w =
    (Return,
     w\<lparr>shm_seg := None,
             sems := (sems w)(mutex_sem := None, empty_sem := None, full_sem := None),
             stdout := stdout w @ (if enable_echo a then s @ [NL] else []),
             trace := trace w @ [SemWait full_sem, SemWait mutex_sem, ReadMessage s,
                                 SetIsEmpty 1, SemPost mutex_sem, SemPost empty_sem,
                                 ShmRemove, SemUnlink mutex_sem, SemUnlink empty_sem,
                                 SemUnlink full_sem]\<rparr>)"
proof -
  have "fst (consumer_transfer a (Some mutex_sem, Some empty_sem, Some full_sem) w) = Return"
    using assms
    by (simp add: consumer_transfer_def sem_wait_Some sem_post_Some printf_line_def Let_def)
  then obtain w' where r: "consumer_transfer a (Some mutex_sem, Some empty_sem, Some full_sem) w = (Return, w')"
    by (metis prod.collapse)
  show ?thesis
  proof (rule consumer_transfer_Return[OF r])
    fix q' s'
    assume "shm_seg w = Some q'" "strcpy MAX_MESSAGE_LENGTH (message q') = Some s'"
      "w' = w\<lparr>shm_seg := None,
             sems := (sems w)(mutex_sem := None, empty_sem := None, full_sem := None),
             stdout := stdout w @ (if enable_echo a then s' @ [NL] else []),
             trace := trace w @ [SemWait full_sem, SemWait mutex_sem, ReadMessage s',
                                 SetIsEmpty 1, SemPost mutex_sem, SemPost empty_sem,
                                 ShmRemove, SemUnlink mutex_sem, SemUnlink empty_sem,
                                 SemUnlink full_sem]\<rparr>"
    with assms(4,5) r show ?thesis by simp
  qed simp_all
qed

lemma consumer_sem_open_eq:
  "consumer_sem_open w =
     ((if sems w mutex_sem = None then None else Some mutex_sem,
       if sems w empty_sem = None then None else Some empty_sem,
       if sems w full_sem = None then None else Some full_sem), w)"
  by (simp add: consumer_sem_open_def sem_open_existing_def split: option.splits)

lemma shmget_existing_eq:
  "shmget_existing w = (if shmget_ok w \<and> shm_seg w \<noteq> None then Some w else None)"
  by (simp add: shmget_existing_def split: option.splits)

lemma consumer_shared_memory_Return:
  assumes "consumer_shared_memory a w = (Return, w')"
  obtains q s ce cm cf where
    "ftok_ok w" "shmget_ok w" "shmat_ok w"
    "sems w full_sem = Some (Suc cf)" "sems w mutex_sem = Some (Suc cm)"
    "sems w empty_sem = Some ce"
    "shm_seg w = Some q"
    "strcpy MAX_MESSAGE_LENGTH (message q) = Some s"
    "w' = w\<lparr>shm_seg := None,
             sems := (sems w)(mutex_sem := None, empty_sem := None, full_sem := None),
             stdout := stdout w @ (if enable_echo a then s @ [NL] else []),
             trace := trace w @ [SemWait full_sem, SemWait mutex_sem, ReadMessage s,
                                 SetIsEmpty 1, SemPost mutex_sem, SemPost empty_sem,
                                 ShmRemove, SemUnlink mutex_sem, SemUnlink empty_sem,
                                 SemUnlink full_sem]\<rparr>"
proof -
  have ok: "ftok_ok w \<and> shmget_ok w \<and> shmat_ok w \<and> shm_seg w \<noteq> None"
    using assms
    by (simp add: consumer_shared_memory_def shmget_existing_eq split: if_splits)
  then have t: "consumer_transfer a
              (if sems w mutex_sem = None then None else Some mutex_sem,
               if sems w empty_sem = None then None else Some empty_sem,
               if sems w full_sem = None then None else Some full_sem) w = (Return, w')"
    using assms
    by (simp add: consumer_shared_memory_def shmget_existing_eq consumer_sem_open_eq)
  from ok have o: "ftok_ok w" "shmget_ok w" "shmat_ok w" by simp_all
  show thesis
  proof (rule consumer_transfer_Return[OF t])
    fix q s ce cm cf
    assume "sems w full_sem = Some (Suc cf)" "sems w mutex_sem = Some (Suc cm)"
      "sems w empty_sem = Some ce"
      "shm_seg w = Some q"
      "strcpy MAX_MESSAGE_LENGTH (message q) = Some s"
      "w' = w\<lparr>shm_seg := None,
             sems := (sems w)(mutex_sem := None, empty_sem := None, full_sem := None),
             stdout := stdout w @ (if enable_echo a then s @ [NL] else []),
             trace := trace w @ [SemWait full_sem, SemWait mutex_sem, ReadMessage s,
                                 SetIsEmpty 1, SemPost mutex_sem, SemPost empty_sem,
                                 ShmRemove, SemUnlink mutex_sem, SemUnlink empty_sem,
                                 SemUnlink full_sem]\<rparr>"
    with o show thesis by (rule that)
  qed simp_all
qed

lemma consumer_shared_memory_run:
  assumes "ftok_ok w" "shmget_ok w" "shmat_ok w"
    "sems w full_sem = Some (Suc cf)" "sems w mutex_sem = Some (Suc cm)"
    "sems w empty_sem = Some ce" "shm_seg w = Some q"
    "strcpy MAX_MESSAGE_LENGTH (message q) = Some s"
  shows "consumer_shared_memory a w =
    (Return,
     w\<lparr>shm_seg := None,
             sems := (sems w)(mutex_sem := None, empty_sem := None, full_sem := None),
             stdout := stdout w @ (if enable_echo a then s @ [NL] else []),
             trace := trace w @ [SemWait full_sem, SemWait mutex_sem, ReadMessage s,
                                 SetIsEmpty 1, SemPost mutex_sem, SemPost empty_sem,
                                 ShmRemove, SemUnlink mutex_sem, SemUnlink empty_sem,
                                 SemUnlink full_sem]\<rparr>)"
  using assms consumer_transfer_run[OF assms(4-8), of a]
  by (simp add: consumer_shared_memory_def shmget_existing_eq consumer_sem_open_eq)

lemma producer_sem_open_eq:
  "producer_sem_open a w =
     (if sems w empty_sem = None \<and> SEM_VALUE_MAX < nat (queue_depth a mod 2 ^ 32)
      then ((Some mutex_sem, None, Some full_sem),
            w\<lparr>sems := (sems w)
               (mutex_sem \<mapsto> (case sems w mutex_sem of None \<Rightarrow> 1 | Some c \<Rightarrow> c),
                full_sem \<mapsto> (case sems w full_sem of None \<Rightarrow> 0 | Some c \<Rightarrow> c))\<rparr>)
      else ((Some mutex_sem, Some empty_sem, Some full_sem),
            w\<lparr>sems := (sems w)
               (mutex_sem \<mapsto> (case sems w mutex_sem of None \<Rightarrow> 1 | Some c \<Rightarrow> c),
                empty_sem \<mapsto> (case sems w empty_sem of
                                     None \<Rightarrow> nat (queue_depth a mod 2 ^ 32) | Some c \<Rightarrow> c),
                full_sem \<mapsto> (case sems w full_sem of None \<Rightarrow> 0 | Some c \<Rightarrow> c))\<rparr>))"
  by (simp add: producer_sem_open_def sem_open_creat_eq SEM_VALUE_MAX_def cong: option.case_cong)

lemma producer_shared_memory_Return:
  assumes "producer_shared_memory a w = (Return, w')"
  obtains msg s ce cm cf where
    "ftok_ok w" "shmget_ok w" "shmat_ok w"
    "Arguments.message a = Some msg"
    "strcpy MAX_MESSAGE_LENGTH (msg @ [NUL]) = Some s"
    "\<not> (sems w empty_sem = None \<and> SEM_VALUE_MAX < nat (queue_depth a mod 2 ^ 32))"
    "(case sems w empty_sem of None \<Rightarrow> nat (queue_depth a mod 2 ^ 32) | Some c \<Rightarrow> c) = Suc ce"
    "(case sems w mutex_sem of None \<Rightarrow> 1 | Some c \<Rightarrow> c) = Suc cm"
    "(case sems w full_sem of None \<Rightarrow> 0 | Some c \<Rightarrow> c) = cf"
    "w' = w\<lparr>shm_seg := Some ((case shm_seg w of None \<Rightarrow> new_Queue | Some q \<Rightarrow> q)
               \<lparr>message := store_str (message (case shm_seg w of None \<Rightarrow> new_Queue | Some q \<Rightarrow> q)) s,
                is_empty := 0\<rparr>),
             sems := (sems w)(empty_sem \<mapsto> ce,
                              mutex_sem \<mapsto> (if SEM_VALUE_MAX \<le> cm then cm else Suc cm),
                              full_sem \<mapsto> (if SEM_VALUE_MAX \<le> cf then cf else Suc cf)),
             stdout := stdout w @ (if enable_echo a then s @ [NL] else []),
             trace := trace w @ [SemWait empty_sem, SemWait mutex_sem, WriteMessage s,
                                 SetIsEmpty 0, SemPost mutex_sem, SemPost full_sem]\<rparr>"
proof -
  define Q where "Q = (case shm_seg w of None \<Rightarrow> new_Queue | Some q \<Rightarrow> q)"
  define w1 where "w1 = w\<lparr>shm_seg := Some Q\<rparr>"
  obtain h w2 where open_eq: "producer_sem_open a w1 = (h, w2)"
    by (cases "producer_sem_open a w1")
  have ok: "ftok_ok w" "shmget_ok w" "shmat_ok w"
    using assms
    by (simp_all add: producer_shared_memory_def shmget_creat_eq split: if_splits)
  have t: "producer_transfer a h w2 = (Return, w')"
    using assms ok open_eq
    by (simp add: producer_shared_memory_def shmget_creat_eq w1_def Q_def)
  have sems1: "sems w1 = sems w" by (simp add: w1_def)
  have good: "\<not> (sems w empty_sem = None \<and> SEM_VALUE_MAX < nat (queue_depth a mod 2 ^ 32))"
  proof
    assume bad: "sems w empty_sem = None \<and> SEM_VALUE_MAX < nat (queue_depth a mod 2 ^ 32)"
    then have "h = (Some mutex_sem, None, Some full_sem)"
      using open_eq by (simp add: producer_sem_open_eq sems1)
    then show False
      using t by (simp add: producer_transfer_def sem_wait_def)
  qed
  have "producer_sem_open a w1 =
          ((Some mutex_sem, Some empty_sem, Some full_sem),
           w1\<lparr>sems := (sems w)
               (mutex_sem \<mapsto> (case sems w mutex_sem of None \<Rightarrow> 1 | Some c \<Rightarrow> c),
                empty_sem \<mapsto> (case sems w empty_sem of
                                     None \<Rightarrow> nat (queue_depth a mod 2 ^ 32) | Some c \<Rightarrow> c),
                full_sem \<mapsto> (case sems w full_sem of None \<Rightarrow> 0 | Some c \<Rightarrow> c))\<rparr>)"
    unfolding producer_sem_open_eq sems1 using good by (rule if_not_P)
  with open_eq have h: "h = (Some mutex_sem, Some empty_sem, Some full_sem)"
    and w2: "w2 = w1\<lparr>sems := (sems w)
               (mutex_sem \<mapsto> (case sems w mutex_sem of None \<Rightarrow> 1 | Some c \<Rightarrow> c),
                empty_sem \<mapsto> (case sems w empty_sem of
                                     None \<Rightarrow> nat (queue_depth a mod 2 ^ 32) | Some c \<Rightarrow> c),
                full_sem \<mapsto> (case sems w full_sem of None \<Rightarrow> 0 | Some c \<Rightarrow> c))\<rparr>"
    by simp_all
  show thesis
  proof (rule producer_transfer_Return[OF t[unfolded h]])
    fix msg q s ce cm cf
    assume e: "sems w2 empty_sem = Some (Suc ce)" and m: "sems w2 mutex_sem = Some (Suc cm)"
      and f: "sems w2 full_sem = Some cf"
      and msg: "Arguments.message a = Some msg" and q: "shm_seg w2 = Some q"
      and s: "strcpy MAX_MESSAGE_LENGTH (msg @ [NUL]) = Some s"
      and w': "w' = w2\<lparr>shm_seg := Some (q\<lparr>message := store_str (message q) s, is_empty := 0\<rparr>),
             sems := (sems w2)(empty_sem \<mapsto> ce,
                              mutex_sem \<mapsto> (if SEM_VALUE_MAX \<le> cm then cm else Suc cm),
                              full_sem \<mapsto> (if SEM_VALUE_MAX \<le> cf then cf else Suc cf)),
             stdout := stdout w2 @ (if enable_echo a then s @ [NL] else []),
             trace := trace w2 @ [SemWait empty_sem, SemWait mutex_sem, WriteMessage s,
                                 SetIsEmpty 0, SemPost mutex_sem, SemPost full_sem]\<rparr>"
    have qQ: "q = Q" using q by (simp add: w2 w1_def)
    have 1: "(case sems w empty_sem of None \<Rightarrow> nat (queue_depth a mod 2 ^ 32) | Some c \<Rightarrow> c) = Suc ce"
      using e by (simp add: w2)
    have 2: "(case sems w mutex_sem of None \<Rightarrow> 1 | Some c \<Rightarrow> c) = Suc cm"
      using m by (simp add: w2)
    have 3: "(case sems w full_sem of None \<Rightarrow> 0 | Some c \<Rightarrow> c) = cf"
      using f by (simp add: w2)
    have 4: "(sems w2)(empty_sem \<mapsto> ce,
                       mutex_sem \<mapsto> (if SEM_VALUE_MAX \<le> cm then cm else Suc cm),
                       full_sem \<mapsto> (if SEM_VALUE_MAX \<le> cf then cf else Suc cf))
           = (sems w)(empty_sem \<mapsto> ce,
                       mutex_sem \<mapsto> (if SEM_VALUE_MAX \<le> cm then cm else Suc cm),
                       full_sem \<mapsto> (if SEM_VALUE_MAX \<le> cf then cf else Suc cf))"
      by (auto simp: w2 fun_eq_iff)
    have 5: "w' = w\<lparr>shm_seg := Some (Q\<lparr>message := store_str (message Q) s, is_empty := 0\<rparr>),
             sems := (sems w)(empty_sem \<mapsto> ce,
                              mutex_sem \<mapsto> (if SEM_VALUE_MAX \<le> cm then cm else Suc cm),
                              full_sem \<mapsto> (if SEM_VALUE_MAX \<le> cf then cf else Suc cf)),
             stdout := stdout w @ (if enable_echo a then s @ [NL] else []),
             trace := trace w @ [SemWait empty_sem, SemWait mutex_sem, WriteMessage s,
                                 SetIsEmpty 0, SemPost mutex_sem, SemPost full_sem]\<rparr>"
      unfolding w' 4 qQ by (simp add: w2 w1_def)
    show thesis
      using ok msg s good 1 2 3 5[unfolded Q_def] by (rule that)
  qed simp
qed

lemma producer_shared_memory_run:
  assumes ok: "ftok_ok w" "shmget_ok w" "shmat_ok w"
    and msg: "Arguments.message a = Some msg"
    and s: "strcpy MAX_MESSAGE_LENGTH (msg @ [NUL]) = Some s"
    and good: "\<not> (sems w empty_sem = None \<and> SEM_VALUE_MAX < nat (queue_depth a mod 2 ^ 32))"
    and e: "(case sems w empty_sem of None \<Rightarrow> nat (queue_depth a mod 2 ^ 32) | Some c \<Rightarrow> c) = Suc ce"
    and m: "(case sems w mutex_sem of None \<Rightarrow> 1 | Some c \<Rightarrow> c) = Suc cm"
    and f: "(case sems w full_sem of None \<Rightarrow> 0 | Some c \<Rightarrow> c) = cf"
  shows "producer_shared_memory a w =
    (Return,
     w\<lparr>shm_seg := Some ((case shm_seg w of None \<Rightarrow> new_Queue | Some q \<Rightarrow> q)
               \<lparr>message := store_str (message (case shm_seg w of None \<Rightarrow> new_Queue | Some q \<Rightarrow> q)) s,
                is_empty := 0\<rparr>),
             sems := (sems w)(empty_sem \<mapsto> ce,
                              mutex_sem \<mapsto> (if SEM_VALUE_MAX \<le> cm then cm else Suc cm),
                              full_sem \<mapsto> (if SEM_VALUE_MAX \<le> cf then cf else Suc cf)),
             stdout := stdout w @ (if enable_echo a then s @ [NL] else []),
             trace := trace w @ [SemWait empty_sem, SemWait mutex_sem, WriteMessage s,
                                 SetIsEmpty 0, SemPost mutex_sem, SemPost full_sem]\<rparr>)"
proof -
  define Q where "Q = (case shm_seg w of None \<Rightarrow> new_Queue | Some q \<Rightarrow> q)"
  define w1 where "w1 = w\<lparr>shm_seg := Some Q\<rparr>"
  define w2 where "w2 = w1\<lparr>sems := (sems w)
               (mutex_sem \<mapsto> (case sems w mutex_sem of None \<Rightarrow> 1 | Some c \<Rightarrow> c),
                empty_sem \<mapsto> (case sems w empty_sem of
                                     None \<Rightarrow> nat (queue_depth a mod 2 ^ 32) | Some c \<Rightarrow> c),
                full_sem \<mapsto> (case sems w full_sem of None \<Rightarrow> 0 | Some c \<Rightarrow> c))\<rparr>"
  have sems1: "sems w1 = sems w" by (simp add: w1_def)
  have op: "producer_sem_open a w1 = ((Some mutex_sem, Some empty_sem, Some full_sem), w2)"
    unfolding producer_sem_open_eq sems1 w2_def using good by (rule if_not_P)
  have tr: "producer_transfer a (Some mutex_sem, Some empty_sem, Some full_sem) w2 =
    (Return,
     w2\<lparr>shm_seg := Some (Q\<lparr>message := store_str (message Q) s, is_empty := 0\<rparr>),
             sems := (sems w2)(empty_sem \<mapsto> ce,
                              mutex_sem \<mapsto> (if SEM_VALUE_MAX \<le> cm then cm else Suc cm),
                              full_sem \<mapsto> (if SEM_VALUE_MAX \<le> cf then cf else Suc cf)),
             stdout := stdout w2 @ (if enable_echo a then s @ [NL] else []),
             trace := trace w2 @ [SemWait empty_sem, SemWait mutex_sem, WriteMessage s,
                                 SetIsEmpty 0, SemPost mutex_sem, SemPost full_sem]\<rparr>)"
    by (rule producer_transfer_run) (use e m f msg s in \<open>simp_all add: w2_def w1_def\<close>)
  have 4: "(sems w2)(empty_sem \<mapsto> ce,
                       mutex_sem \<mapsto> (if SEM_VALUE_MAX \<le> cm then cm else Suc cm),
                       full_sem \<mapsto> (if SEM_VALUE_MAX \<le> cf then cf else Suc cf))
           = (sems w)(empty_sem \<mapsto> ce,
                       mutex_sem \<mapsto> (if SEM_VALUE_MAX \<le> cm then cm else Suc cm),
                       full_sem \<mapsto> (if SEM_VALUE_MAX \<le> cf then cf else Suc cf))"
    by (auto simp: w2_def fun_eq_iff)
  have "producer_shared_memory a w = producer_transfer a (Some mutex_sem, Some empty_sem, Some full_sem) w2"
    using ok op by (simp add: producer_shared_memory_def shmget_creat_eq w1_def Q_def)
  also note tr
  finally show ?thesis
    unfolding 4 by (simp add: w2_def w1_def Q_def)
qed

section \<open>The events of a run\<close>

lemma sem_wait_trace:
  "sem_wait h w = Inr w' \<Longrightarrow>
   \<exists>n. h = Some n \<and> trace w' = trace w @ [SemWait n] \<and> shm_seg w' = shm_seg w"
  by (auto elim!: sem_wait_Inr)

lemma sem_post_trace:
  "sem_post h w = Inr (r, w') \<Longrightarrow> \<exists>n. h = Some n \<and> trace w' = trace w @ [SemPost n]"
  by (auto elim!: sem_post_Inr)

lemma producer_transfer_events:
  assumes "m = None \<or> m = Some mutex_sem" "e = None \<or> e = Some empty_sem"
    "f = None \<or> f = Some full_sem"
  shows "run_events w (producer_transfer a (m, e, f) w) \<in>
     {[], [SemWait empty_sem], [SemWait empty_sem, SemWait mutex_sem],
      [SemWait empty_sem, SemWait mutex_sem,
       WriteMessage (c_str (the (Arguments.message a) @ [NUL])), SetIsEmpty 0],
      [SemWait empty_sem, SemWait mutex_sem,
       WriteMessage (c_str (the (Arguments.message a) @ [NUL])), SetIsEmpty 0, SemPost mutex_sem],
      [SemWait empty_sem, SemWait mutex_sem,
       WriteMessage (c_str (the (Arguments.message a) @ [NUL])), SetIsEmpty 0, SemPost mutex_sem,
       SemPost full_sem]}"
  using assms unfolding producer_transfer_def run_events_def
  by (auto simp: Let_def printf_line_def split: sum.splits option.splits
      dest!: sem_wait_trace sem_post_trace strcpy_Some)

lemma consumer_transfer_events:
  assumes "m = None \<or> m = Some mutex_sem" "e = None \<or> e = Some empty_sem"
    "f = None \<or> f = Some full_sem"
  shows "run_events w (consumer_transfer a (m, e, f) w) \<in>
     {[], [SemWait full_sem], [SemWait full_sem, SemWait mutex_sem],
      [SemWait full_sem, SemWait mutex_sem,
       ReadMessage (c_str (message (the (shm_seg w)))), SetIsEmpty 1],
      [SemWait full_sem, SemWait mutex_sem,
       ReadMessage (c_str (message (the (shm_seg w)))), SetIsEmpty 1, SemPost mutex_sem],
      [SemWait full_sem, SemWait mutex_sem,
       ReadMessage (c_str (message (the (shm_seg w)))), SetIsEmpty 1, SemPost mutex_sem,
       SemPost empty_sem, ShmRemove, SemUnlink mutex_sem, SemUnlink empty_sem,
       SemUnlink full_sem]}"
  using assms unfolding consumer_transfer_def run_events_def
  by (auto simp: Let_def printf_line_def consumer_remove_def sem_unlink_def shmctl_rmid_def
      split: sum.splits option.splits
      dest!: sem_wait_trace sem_post_trace strcpy_Some)

lemma run_events_same: "trace w' = trace w \<Longrightarrow> run_events w r = run_events w' r"
  by (simp add: run_events_def)

lemma run_events_unchanged [simp]: "trace w' = trace w \<Longrightarrow> run_events w (oc, w') = []"
  by (simp add: run_events_def)

lemma producer_shared_memory_events:
  "run_events w (producer_shared_memory a w) \<in>
     {[], [SemWait empty_sem], [SemWait empty_sem, SemWait mutex_sem],
      [SemWait empty_sem, SemWait mutex_sem,
       WriteMessage (c_str (the (Arguments.message a) @ [NUL])), SetIsEmpty 0],
      [SemWait empty_sem, SemWait mutex_sem,
       WriteMessage (c_str (the (Arguments.message a) @ [NUL])), SetIsEmpty 0, SemPost mutex_sem],
      [SemWait empty_sem, SemWait mutex_sem,
       WriteMessage (c_str (the (Arguments.message a) @ [NUL])), SetIsEmpty 0, SemPost mutex_sem,
       SemPost full_sem]}"
proof (cases "ftok_ok w \<and> shmget_ok w \<and> shmat_ok w")
  case False
  then have "run_events w (producer_shared_memory a w) = []"
    by (auto simp: producer_shared_memory_def shmget_creat_eq perror_def)
  then show ?thesis by simp
next
  case True
  define w1 where "w1 = w\<lparr>shm_seg := Some (case shm_seg w of None \<Rightarrow> new_Queue | Some q \<Rightarrow> q)\<rparr>"
  obtain m e f w2 where op: "producer_sem_open a w1 = ((m, e, f), w2)"
    by (cases "producer_sem_open a w1") auto
  have run: "producer_shared_memory a w = producer_transfer a (m, e, f) w2"
    using True op by (simp add: producer_shared_memory_def shmget_creat_eq w1_def)
  have tr: "trace w2 = trace w"
    using op by (auto simp: producer_sem_open_eq w1_def split: if_splits)
  have h: "m = None \<or> m = Some mutex_sem" "e = None \<or> e = Some empty_sem"
    "f = None \<or> f = Some full_sem"
    using op by (auto simp: producer_sem_open_eq split: if_splits)
  show ?thesis
    unfolding run run_events_same[OF tr] by (rule producer_transfer_events[OF h])
qed

lemma consumer_shared_memory_events:
  "run_events w (consumer_shared_memory a w) \<in>
     {[], [SemWait full_sem], [SemWait full_sem, SemWait mutex_sem],
      [SemWait full_sem, SemWait mutex_sem,
       ReadMessage (c_str (message (the (shm_seg w)))), SetIsEmpty 1],
      [SemWait full_sem, SemWait mutex_sem,
       ReadMessage (c_str (message (the (shm_seg w)))), SetIsEmpty 1, SemPost mutex_sem],
      [SemWait full_sem, SemWait mutex_sem,
       ReadMessage (c_str (message (the (shm_seg w)))), SetIsEmpty 1, SemPost mutex_sem,
       SemPost empty_sem, ShmRemove, SemUnlink mutex_sem, SemUnlink empty_sem,
       SemUnlink full_sem]}"
proof (cases "ftok_ok w \<and> shmget_ok w \<and> shm_seg w \<noteq> None \<and> shmat_ok w")
  case False
  then have "run_events w (consumer_shared_memory a w) = []"
    by (auto simp: consumer_shared_memory_def shmget_existing_eq perror_def)
  then show ?thesis by simp
next
  case True
  have run: "consumer_shared_memory a w =
      consumer_transfer a
        (if sems w mutex_sem = None then None else Some mutex_sem,
         if sems w empty_sem = None then None else Some empty_sem,
         if sems w full_sem = None then None else Some full_sem) w"
    using True by (simp add: consumer_shared_memory_def shmget_existing_eq consumer_sem_open_eq)
  show ?thesis
    unfolding run by (rule consumer_transfer_events) simp_all
qed

lemma guarded_producer_prefixes:
  "tr \<in> {[], [SemWait empty_sem], [SemWait empty_sem, SemWait mutex_sem],
      [SemWait empty_sem, SemWait mutex_sem, WriteMessage s, SetIsEmpty v],
      [SemWait empty_sem, SemWait mutex_sem, WriteMessage s, SetIsEmpty v, SemPost mutex_sem],
      [SemWait empty_sem, SemWait mutex_sem, WriteMessage s, SetIsEmpty v, SemPost mutex_sem,
       SemPost full_sem]} \<Longrightarrow> guarded False tr"
  by (auto simp: mailbox_access_def)

lemma guarded_consumer_prefixes:
  "tr \<in> {[], [SemWait full_sem], [SemWait full_sem, SemWait mutex_sem],
      [SemWait full_sem, SemWait mutex_sem, ReadMessage s, SetIsEmpty v],
      [SemWait full_sem, SemWait mutex_sem, ReadMessage s, SetIsEmpty v, SemPost mutex_sem],
      [SemWait full_sem, SemWait mutex_sem, ReadMessage s, SetIsEmpty v, SemPost mutex_sem,
       SemPost empty_sem, ShmRemove, SemUnlink mutex_sem, SemUnlink empty_sem,
       SemUnlink full_sem]} \<Longrightarrow> guarded False tr"
  by (auto simp: mailbox_access_def)

lemma producer_Return_events:
  assumes "fst (producer_shared_memory a w) = Return"
  shows "\<exists>s. run_events w (producer_shared_memory a w) =
           [SemWait empty_sem, SemWait mutex_sem, WriteMessage s, SetIsEmpty 0,
            SemPost mutex_sem, SemPost full_sem]"
proof -
  obtain w' where r: "producer_shared_memory a w = (Return, w')"
    using assms by (metis prod.collapse)
  then show ?thesis
    by (rule producer_shared_memory_Return) (simp add: r run_events_def)
qed

lemma consumer_Return_events:
  assumes "fst (consumer_shared_memory a w) = Return"
  shows "\<exists>s. run_events w (consumer_shared_memory a w) =
           [SemWait full_sem, SemWait mutex_sem, ReadMessage s, SetIsEmpty 1,
            SemPost mutex_sem, SemPost empty_sem, ShmRemove, SemUnlink mutex_sem,
            SemUnlink empty_sem, SemUnlink full_sem]"
proof -
  obtain w' where r: "consumer_shared_memory a w = (Return, w')"
    using assms by (metis prod.collapse)
  then show ?thesis
    by (rule consumer_shared_memory_Return) (simp add: r run_events_def)
qed

lemma producer_from_clean:
  assumes ok: "ftok_ok w" "shmget_ok w" "shmat_ok w"
    and clean: "shm_seg w = None" "sems w mutex_sem = None" "sems w empty_sem = None"
      "sems w full_sem = None"
    and msg: "Arguments.message a = Some msg" "NUL \<notin> set msg" "length msg < MAX_MESSAGE_LENGTH"
    and depth: "0 < queue_depth a" "queue_depth a \<le> 2147483647"
  shows "producer_shared_memory a w =
    (Return,
     w\<lparr>shm_seg := Some \<lparr>message = store_str (replicate MAX_MESSAGE_LENGTH NUL) msg, is_empty = 0\<rparr>,
       sems := (sems w)(empty_sem \<mapsto> nat (queue_depth a) - 1, mutex_sem \<mapsto> 1, full_sem \<mapsto> 1),
       stdout := stdout w @ (if enable_echo a then msg @ [NL] else []),
       trace := trace w @ [SemWait empty_sem, SemWait mutex_sem, WriteMessage msg,
                           SetIsEmpty 0, SemPost mutex_sem, SemPost full_sem]\<rparr>)"
proof -
  have s: "strcpy MAX_MESSAGE_LENGTH (msg @ [NUL]) = Some msg"
    using msg by (simp add: strcpy_terminated)
  have d: "nat (queue_depth a mod 2 ^ 32) = nat (queue_depth a)"
    using depth by simp
  have "nat (queue_depth a) \<le> SEM_VALUE_MAX"
    using depth by (simp add: SEM_VALUE_MAX_def)
  then have good: "\<not> (sems w empty_sem = None \<and> SEM_VALUE_MAX < nat (queue_depth a mod 2 ^ 32))"
    unfolding d by simp
  have e: "(case sems w empty_sem of None \<Rightarrow> nat (queue_depth a mod 2 ^ 32) | Some c \<Rightarrow> c)
           = Suc (nat (queue_depth a) - 1)"
    unfolding d using depth clean by simp
  have m: "(case sems w mutex_sem of None \<Rightarrow> 1 | Some c \<Rightarrow> c) = Suc 0"
    using clean by simp
  have f: "(case sems w full_sem of None \<Rightarrow> 0 | Some c \<Rightarrow> c) = 0"
    using clean by simp
  show ?thesis
    unfolding producer_shared_memory_run[OF ok msg(1) s good e m f]
    using clean by (simp add: new_Queue_def SEM_VALUE_MAX_def)
qed

lemma hello_posted_eq:
  "producer_shared_memory hello_producer fresh_world = (Return, hello_posted)"
  "hello_posted =
     fresh_world\<lparr>shm_seg := Some \<lparr>message = store_str (replicate MAX_MESSAGE_LENGTH NUL) ''hello'',
                                   is_empty = 0\<rparr>,
       sems := (sems fresh_world)(empty_sem \<mapsto> 0, mutex_sem \<mapsto> 1, full_sem \<mapsto> 1),
       trace := [SemWait empty_sem, SemWait mutex_sem, WriteMessage ''hello'',
                 SetIsEmpty 0, SemPost mutex_sem, SemPost full_sem]\<rparr>"
proof -
  have "producer_shared_memory hello_producer fresh_world =
    (Return,
     fresh_world\<lparr>shm_seg := Some \<lparr>message = store_str (replicate MAX_MESSAGE_LENGTH NUL) ''hello'',
                                   is_empty = 0\<rparr>,
       sems := (sems fresh_world)(empty_sem \<mapsto> nat (queue_depth hello_producer) - 1,
                                   mutex_sem \<mapsto> 1, full_sem \<mapsto> 1),
       stdout := stdout fresh_world @ (if enable_echo hello_producer then ''hello'' @ [NL] else []),
       trace := trace fresh_world @ [SemWait empty_sem, SemWait mutex_sem, WriteMessage ''hello'',
                           SetIsEmpty 0, SemPost mutex_sem, SemPost full_sem]\<rparr>)"
    by (rule producer_from_clean)
       (simp_all add: fresh_world_def hello_producer_def args_zero_def NUL_def
          MAX_MESSAGE_LENGTH_def)
  then have r: "producer_shared_memory hello_producer fresh_world =
    (Return,
     fresh_world\<lparr>shm_seg := Some \<lparr>message = store_str (replicate MAX_MESSAGE_LENGTH NUL) ''hello'',
                                   is_empty = 0\<rparr>,
       sems := (sems fresh_world)(empty_sem \<mapsto> 0, mutex_sem \<mapsto> 1, full_sem \<mapsto> 1),
       trace := [SemWait empty_sem, SemWait mutex_sem, WriteMessage ''hello'',
                 SetIsEmpty 0, SemPost mutex_sem, SemPost full_sem]\<rparr>)"
    by (simp add: fresh_world_def hello_producer_def args_zero_def)
  show "hello_posted =
     fresh_world\<lparr>shm_seg := Some \<lparr>message = store_str (replicate MAX_MESSAGE_LENGTH NUL) ''hello'',
                                   is_empty = 0\<rparr>,
       sems := (sems fresh_world)(empty_sem \<mapsto> 0, mutex_sem \<mapsto> 1, full_sem \<mapsto> 1),
       trace := [SemWait empty_sem, SemWait mutex_sem, WriteMessage ''hello'',
                 SetIsEmpty 0, SemPost mutex_sem, SemPost full_sem]\<rparr>"
    by (simp add: hello_posted_def r)
  then show "producer_shared_memory hello_producer fresh_world = (Return, hello_posted)"
    using r by simp
qed

lemma echo_consumer_returns: "fst (consumer_shared_memory echo_consumer hello_posted) = Return"
proof -
  have "NUL \<notin> set ''hello''"
    by (simp add: NUL_def)
  then have "strcpy MAX_MESSAGE_LENGTH
               (''hello'' @ NUL # drop (length ''hello'' + 1) (replicate MAX_MESSAGE_LENGTH NUL))
             = Some ''hello''"
    by (subst strcpy_terminated) (simp_all add: MAX_MESSAGE_LENGTH_def)
  then have s: "strcpy MAX_MESSAGE_LENGTH
             (message \<lparr>message = store_str (replicate MAX_MESSAGE_LENGTH NUL) ''hello'', is_empty = 0\<rparr>)
           = Some ''hello''"
    by (simp add: store_str_def)
  show ?thesis
    by (subst consumer_shared_memory_run[where cf = 0 and cm = 0 and ce = 0
          and q = "\<lparr>message = store_str (replicate MAX_MESSAGE_LENGTH NUL) ''hello'', is_empty = 0\<rparr>"
          and s = "''hello''"])
       (use s in \<open>simp_all add: hello_posted_eq(2) fresh_world_def\<close>)
qed

section \<open>The shared-memory hand-off\<close>

text \<open>
  C1. Start with none of the named objects, in a system that lets \<open>ftok\<close>, \<open>shmget\<close> and
  \<open>shmat\<close> succeed. For every message without a zero byte that fits the mailbox with its
  terminator (fewer than \<open>MAX_MESSAGE_LENGTH\<close> bytes) and every queue depth from 1 to
  \<open>INT_MAX\<close>, the producer run returns, and the consumer run that follows it returns too,
  having copied out of the mailbox exactly the message the producer was given; with the
  echo flag it prints that message and a newline.
\<close>

theorem shared_memory_round_trip:
  assumes ok: "ftok_ok w" "shmget_ok w" "shmat_ok w"
    and clean: "shm_seg w = None" "sems w mutex_sem = None" "sems w empty_sem = None"
      "sems w full_sem = None"
    and msg: "Arguments.message pargs = Some msg" "NUL \<notin> set msg"
      "length msg < MAX_MESSAGE_LENGTH"
    and depth: "0 < queue_depth pargs" "queue_depth pargs \<le> 2147483647"
  shows "\<exists>w1 w2.
           producer_shared_memory pargs w = (Return, w1)
         \<and> consumer_shared_memory cargs w1 = (Return, w2)
         \<and> run_events w1 (consumer_shared_memory cargs w1) =
             [SemWait full_sem, SemWait mutex_sem, ReadMessage msg, SetIsEmpty 1,
              SemPost mutex_sem, SemPost empty_sem, ShmRemove, SemUnlink mutex_sem,
              SemUnlink empty_sem, SemUnlink full_sem]
         \<and> stdout w2 = stdout w1 @ (if enable_echo cargs then msg @ [NL] else [])"
proof -
  define w1 where "w1 =
     w\<lparr>shm_seg := Some \<lparr>message = store_str (replicate MAX_MESSAGE_LENGTH NUL) msg, is_empty = 0\<rparr>,
       sems := (sems w)(empty_sem \<mapsto> nat (queue_depth pargs) - 1, mutex_sem \<mapsto> 1, full_sem \<mapsto> 1),
       stdout := stdout w @ (if enable_echo pargs then msg @ [NL] else []),
       trace := trace w @ [SemWait empty_sem, SemWait mutex_sem, WriteMessage msg,
                           SetIsEmpty 0, SemPost mutex_sem, SemPost full_sem]\<rparr>"
  have p: "producer_shared_memory pargs w = (Return, w1)"
    unfolding w1_def using assms by (rule producer_from_clean)
  have s: "strcpy MAX_MESSAGE_LENGTH
             (message \<lparr>message = store_str (replicate MAX_MESSAGE_LENGTH NUL) msg, is_empty = 0\<rparr>)
           = Some msg"
    using msg by (simp add: store_str_def strcpy_terminated)
  have c: "consumer_shared_memory cargs w1 =
    (Return,
     w1\<lparr>shm_seg := None,
             sems := (sems w1)(mutex_sem := None, empty_sem := None, full_sem := None),
             stdout := stdout w1 @ (if enable_echo cargs then msg @ [NL] else []),
             trace := trace w1 @ [SemWait full_sem, SemWait mutex_sem, ReadMessage msg,
                                 SetIsEmpty 1, SemPost mutex_sem, SemPost empty_sem,
                                 ShmRemove, SemUnlink mutex_sem, SemUnlink empty_sem,
                                 SemUnlink full_sem]\<rparr>)"
    by (rule consumer_shared_memory_run[where cf = 0 and cm = 0
          and ce = "nat (queue_depth pargs) - 1"
          and q = "\<lparr>message = store_str (replicate MAX_MESSAGE_LENGTH NUL) msg, is_empty = 0\<rparr>"])
       (use ok s in \<open>simp_all add: w1_def\<close>)
  show ?thesis
    using p by (simp add: c run_events_def)
qed

theorem shared_memory_round_trip_witness:
  "length ''hello'' < MAX_MESSAGE_LENGTH
   \<and> (\<exists>w1 w2.
           producer_shared_memory hello_producer fresh_world = (Return, w1)
         \<and> consumer_shared_memory echo_consumer w1 = (Return, w2)
         \<and> run_events w1 (consumer_shared_memory echo_consumer w1) =
             [SemWait full_sem, SemWait mutex_sem, ReadMessage ''hello'', SetIsEmpty 1,
              SemPost mutex_sem, SemPost empty_sem, ShmRemove, SemUnlink mutex_sem,
              SemUnlink empty_sem, SemUnlink full_sem]
         \<and> stdout w2 = stdout w1 @ ''hello'' @ [NL])"
  using shared_memory_round_trip[of fresh_world hello_producer "''hello''" echo_consumer]
  by (simp add: fresh_world_def hello_producer_def echo_consumer_def args_zero_def NUL_def
      MAX_MESSAGE_LENGTH_def)

text \<open>
  C2. In every run of either role, whatever its outcome, the mailbox is accessed only while
  the mutex is held. In every run that returns, the mutex is taken exactly once and released
  exactly once, and its release comes before the release of \<open>full\<close> (producer) or of \<open>empty\<close>
  (consumer).
\<close>

theorem mutex_brackets_mailbox_accesses:
  "guarded False (run_events w (producer_shared_memory a w))
   \<and> guarded False (run_events w' (consumer_shared_memory a' w'))
   \<and> (fst (producer_shared_memory a w) = Return \<longrightarrow>
        count_list (run_events w (producer_shared_memory a w)) (SemWait mutex_sem) = 1
      \<and> count_list (run_events w (producer_shared_memory a w)) (SemPost mutex_sem) = 1
      \<and> precedes (SemPost mutex_sem) (SemPost full_sem)
           (run_events w (producer_shared_memory a w)))
   \<and> (fst (consumer_shared_memory a' w') = Return \<longrightarrow>
        count_list (run_events w' (consumer_shared_memory a' w')) (SemWait mutex_sem) = 1
      \<and> count_list (run_events w' (consumer_shared_memory a' w')) (SemPost mutex_sem) = 1
      \<and> precedes (SemPost mutex_sem) (SemPost empty_sem)
           (run_events w' (consumer_shared_memory a' w')))"
proof (intro conjI impI)
  show "guarded False (run_events w (producer_shared_memory a w))"
    using producer_shared_memory_events by (rule guarded_producer_prefixes)
  show "guarded False (run_events w' (consumer_shared_memory a' w'))"
    using consumer_shared_memory_events by (rule guarded_consumer_prefixes)
next
  assume "fst (producer_shared_memory a w) = Return"
  then obtain s where e: "run_events w (producer_shared_memory a w) =
           [SemWait empty_sem, SemWait mutex_sem, WriteMessage s, SetIsEmpty 0,
            SemPost mutex_sem, SemPost full_sem]"
    using producer_Return_events by blast
  show "count_list (run_events w (producer_shared_memory a w)) (SemWait mutex_sem) = 1"
    "count_list (run_events w (producer_shared_memory a w)) (SemPost mutex_sem) = 1"
    "precedes (SemPost mutex_sem) (SemPost full_sem) (run_events w (producer_shared_memory a w))"
    unfolding e by (simp_all add: precedes_def)
next
  assume "fst (consumer_shared_memory a' w') = Return"
  then obtain s where e: "run_events w' (consumer_shared_memory a' w') =
           [SemWait full_sem, SemWait mutex_sem, ReadMessage s, SetIsEmpty 1,
            SemPost mutex_sem, SemPost empty_sem, ShmRemove, SemUnlink mutex_sem,
            SemUnlink empty_sem, SemUnlink full_sem]"
    using consumer_Return_events by blast
  show "count_list (run_events w' (consumer_shared_memory a' w')) (SemWait mutex_sem) = 1"
    "count_list (run_events w' (consumer_shared_memory a' w')) (SemPost mutex_sem) = 1"
    "precedes (SemPost mutex_sem) (SemPost empty_sem) (run_events w' (consumer_shared_memory a' w'))"
    unfolding e by (simp_all add: precedes_def)
qed

theorem mutex_brackets_mailbox_accesses_witness:
  "fst (producer_shared_memory hello_producer fresh_world) = Return
   \<and> fst (consumer_shared_memory echo_consumer hello_posted) = Return
   \<and> guarded False (run_events fresh_world (producer_shared_memory hello_producer fresh_world))
   \<and> guarded False (run_events hello_posted (consumer_shared_memory echo_consumer hello_posted))
   \<and> count_list (run_events fresh_world (producer_shared_memory hello_producer fresh_world))
        (SemWait mutex_sem) = 1
   \<and> count_list (run_events fresh_world (producer_shared_memory hello_producer fresh_world))
        (SemPost mutex_sem) = 1
   \<and> precedes (SemPost mutex_sem) (SemPost full_sem)
        (run_events fresh_world (producer_shared_memory hello_producer fresh_world))
   \<and> count_list (run_events hello_posted (consumer_shared_memory echo_consumer hello_posted))
        (SemWait mutex_sem) = 1
   \<and> count_list (run_events hello_posted (consumer_shared_memory echo_consumer hello_posted))
        (SemPost mutex_sem) = 1
   \<and> precedes (SemPost mutex_sem) (SemPost empty_sem)
        (run_events hello_posted (consumer_shared_memory echo_consumer hello_posted))"
  using mutex_brackets_mailbox_accesses[of fresh_world hello_producer hello_posted echo_consumer]
    echo_consumer_returns hello_posted_eq(1)
  by simp

section \<open>Creation and removal of the named objects\<close>

lemma producer_sem_open_sems:
  "sems (snd (producer_sem_open a w)) =
     (if sems w empty_sem = None \<and> SEM_VALUE_MAX < nat (queue_depth a mod 2 ^ 32)
      then (sems w)
               (mutex_sem \<mapsto> (case sems w mutex_sem of None \<Rightarrow> 1 | Some c \<Rightarrow> c),
                full_sem \<mapsto> (case sems w full_sem of None \<Rightarrow> 0 | Some c \<Rightarrow> c))
      else (sems w)
               (mutex_sem \<mapsto> (case sems w mutex_sem of None \<Rightarrow> 1 | Some c \<Rightarrow> c),
                empty_sem \<mapsto> (case sems w empty_sem of
                                     None \<Rightarrow> nat (queue_depth a mod 2 ^ 32) | Some c \<Rightarrow> c),
                full_sem \<mapsto> (case sems w full_sem of None \<Rightarrow> 0 | Some c \<Rightarrow> c)))"
  by (simp add: producer_sem_open_eq)

lemma hello_producer_with_stale_empty:
  "fst (producer_shared_memory hello_producer
          (fresh_world\<lparr>sems := (sems fresh_world)(empty_sem \<mapsto> 3)\<rparr>)) = Return"
proof -
  have "NUL \<notin> set ''hello''"
    by (simp add: NUL_def)
  then have s: "strcpy MAX_MESSAGE_LENGTH (''hello'' @ [NUL]) = Some ''hello''"
    by (subst strcpy_terminated) (simp_all add: MAX_MESSAGE_LENGTH_def)
  show ?thesis
    by (subst producer_shared_memory_run[where msg = "''hello''" and s = "''hello''"
          and ce = 2 and cm = 0 and cf = 0])
       (use s in \<open>simp_all add: fresh_world_def hello_producer_def args_zero_def\<close>)
qed

lemma consumer_transfer_creates_nothing:
  "(sems w n = None \<longrightarrow> sems (snd (consumer_transfer a (m, e, f) w)) n = None)
   \<and> (shm_seg w = None \<longrightarrow> shm_seg (snd (consumer_transfer a (m, e, f) w)) = None)"
  unfolding consumer_transfer_def
  by (auto simp: Let_def printf_line_def consumer_remove_def sem_unlink_def shmctl_rmid_def
      split: sum.splits option.splits elim!: sem_wait_Inr sem_post_Inr)

lemma consumer_creates_nothing:
  "(sems w n = None \<longrightarrow> sems (snd (consumer_shared_memory a w)) n = None)
   \<and> (shm_seg w = None \<longrightarrow> shm_seg (snd (consumer_shared_memory a w)) = None)"
  using consumer_transfer_creates_nothing[of w n a]
  by (simp add: consumer_shared_memory_def shmget_existing_eq consumer_sem_open_eq perror_def)

lemma producer_transfer_keeps:
  "(sems w n \<noteq> None \<longrightarrow> sems (snd (producer_transfer a (m, e, f) w)) n \<noteq> None)
   \<and> (shm_seg w \<noteq> None \<longrightarrow> shm_seg (snd (producer_transfer a (m, e, f) w)) \<noteq> None)"
  unfolding producer_transfer_def
  by (auto simp: Let_def printf_line_def
      split: sum.splits option.splits elim!: sem_wait_Inr sem_post_Inr)

lemma producer_leaves_named_objects:
  assumes "ftok_ok w" "shmget_ok w" "shmat_ok w"
  shows "shm_seg (snd (producer_shared_memory a w)) \<noteq> None"
    "sems (snd (producer_shared_memory a w)) mutex_sem \<noteq> None"
    "sems (snd (producer_shared_memory a w)) full_sem \<noteq> None"
    "nat (queue_depth a mod 2 ^ 32) \<le> SEM_VALUE_MAX \<Longrightarrow>
     sems (snd (producer_shared_memory a w)) empty_sem \<noteq> None"
proof -
  define w1 where "w1 = w\<lparr>shm_seg := Some (case shm_seg w of None \<Rightarrow> new_Queue | Some q \<Rightarrow> q)\<rparr>"
  obtain m e f w2 where op: "producer_sem_open a w1 = ((m, e, f), w2)"
    by (cases "producer_sem_open a w1") auto
  have run: "producer_shared_memory a w = producer_transfer a (m, e, f) w2"
    using assms op by (simp add: producer_shared_memory_def shmget_creat_eq w1_def)
  have w2: "shm_seg w2 \<noteq> None" "sems w2 mutex_sem \<noteq> None" "sems w2 full_sem \<noteq> None"
    "nat (queue_depth a mod 2 ^ 32) \<le> SEM_VALUE_MAX \<Longrightarrow> sems w2 empty_sem \<noteq> None"
    using op by (auto simp: producer_sem_open_eq w1_def split: if_splits)
  show "shm_seg (snd (producer_shared_memory a w)) \<noteq> None"
    "sems (snd (producer_shared_memory a w)) mutex_sem \<noteq> None"
    "sems (snd (producer_shared_memory a w)) full_sem \<noteq> None"
    "nat (queue_depth a mod 2 ^ 32) \<le> SEM_VALUE_MAX \<Longrightarrow>
     sems (snd (producer_shared_memory a w)) empty_sem \<noteq> None"
    unfolding run using w2 producer_transfer_keeps by blast+
qed

text \<open>
  C3. After the producer's three \<open>sem_open\<close> calls every semaphore that existed has the
  value it had, whatever the queue depth; one that did not exist has its initial value: 1
  for the mutex, the queue depth (as \<open>unsigned int\<close>, when \<open>sem_open\<close> accepts it) for
  \<open>empty\<close>, 0 for \<open>full\<close>. The consumer's three \<open>sem_open\<close> calls change nothing. So in a
  producer run that returns, an \<open>empty\<close> semaphore that existed with value \<open>c\<close> ends with
  \<open>c - 1\<close>: the one unit the run took, and no new start from the queue depth.
\<close>

theorem sem_open_initialises_once:
  "sems (snd (producer_sem_open a w)) n =
     (case sems w n of
        Some c \<Rightarrow> Some c
      | None \<Rightarrow>
          if n = mutex_sem then Some 1
          else if n = empty_sem
          then (if nat (queue_depth a mod 2 ^ 32) \<le> SEM_VALUE_MAX
                then Some (nat (queue_depth a mod 2 ^ 32)) else None)
          else if n = full_sem then Some 0
          else None)
   \<and> snd (consumer_sem_open w) = w
   \<and> (sems w empty_sem = Some c \<and> fst (producer_shared_memory a w) = Return \<longrightarrow>
        sems (snd (producer_shared_memory a w)) empty_sem = Some (c - 1))"
proof (intro conjI impI)
  show "sems (snd (producer_sem_open a w)) n =
     (case sems w n of
        Some c \<Rightarrow> Some c
      | None \<Rightarrow>
          if n = mutex_sem then Some 1
          else if n = empty_sem
          then (if nat (queue_depth a mod 2 ^ 32) \<le> SEM_VALUE_MAX
                then Some (nat (queue_depth a mod 2 ^ 32)) else None)
          else if n = full_sem then Some 0
          else None)"
    unfolding producer_sem_open_sems by (auto split: option.splits)
  show "snd (consumer_sem_open w) = w"
    by (simp add: consumer_sem_open_eq)
  show "sems (snd (producer_shared_memory a w)) empty_sem = Some (c - 1)"
    if h: "sems w empty_sem = Some c \<and> fst (producer_shared_memory a w) = Return"
  proof -
    obtain w' where r: "producer_shared_memory a w = (Return, w')"
      using h by (metis prod.collapse)
    from r show ?thesis
    proof (rule producer_shared_memory_Return)
      fix ce s cm cf
      assume "(case sems w empty_sem of None \<Rightarrow> nat (queue_depth a mod 2 ^ 32) | Some c \<Rightarrow> c) = Suc ce"
        and "w' = w\<lparr>shm_seg := Some ((case shm_seg w of None \<Rightarrow> new_Queue | Some q \<Rightarrow> q)
               \<lparr>message := store_str (message (case shm_seg w of None \<Rightarrow> new_Queue | Some q \<Rightarrow> q)) s,
                is_empty := 0\<rparr>),
             sems := (sems w)(empty_sem \<mapsto> ce,
                              mutex_sem \<mapsto> (if SEM_VALUE_MAX \<le> cm then cm else Suc cm),
                              full_sem \<mapsto> (if SEM_VALUE_MAX \<le> cf then cf else Suc cf)),
             stdout := stdout w @ (if enable_echo a then s @ [NL] else []),
             trace := trace w @ [SemWait empty_sem, SemWait mutex_sem, WriteMessage s,
                                 SetIsEmpty 0, SemPost mutex_sem, SemPost full_sem]\<rparr>"
      then show ?thesis using h r by simp
    qed
  qed
qed

theorem sem_open_initialises_once_witness:
  "sems (fresh_world\<lparr>sems := (sems fresh_world)(empty_sem \<mapsto> 3)\<rparr>) empty_sem = Some 3
   \<and> queue_depth hello_producer = 1
   \<and> fst (producer_shared_memory hello_producer
          (fresh_world\<lparr>sems := (sems fresh_world)(empty_sem \<mapsto> 3)\<rparr>)) = Return
   \<and> sems (snd (producer_sem_open hello_producer
          (fresh_world\<lparr>sems := (sems fresh_world)(empty_sem \<mapsto> 3)\<rparr>))) empty_sem = Some 3
   \<and> sems (snd (producer_shared_memory hello_producer
          (fresh_world\<lparr>sems := (sems fresh_world)(empty_sem \<mapsto> 3)\<rparr>))) empty_sem = Some 2"
  using sem_open_initialises_once[of hello_producer
          "fresh_world\<lparr>sems := (sems fresh_world)(empty_sem \<mapsto> 3)\<rparr>" empty_sem 3]
    hello_producer_with_stale_empty
  by (simp add: hello_producer_def args_zero_def)

text \<open>
  C4. A consumer run that returns has, after its transfer and as the last events of its
  log, removed the segment and unlinked the three semaphores: none of the four named
  objects exists afterwards. A producer run that follows, with a message that fits and a
  queue depth from 1 to \<open>INT_MAX\<close>, returns and leaves a new segment holding its message
  and new semaphores with the values of a first run: mutex 1, \<open>empty\<close> the queue depth less
  the one unit taken, \<open>full\<close> 1.
\<close>

theorem consumer_removes_named_objects:
  assumes c: "consumer_shared_memory cargs w = (Return, w')"
    and msg: "Arguments.message pargs = Some msg" "NUL \<notin> set msg"
      "length msg < MAX_MESSAGE_LENGTH"
    and depth: "0 < queue_depth pargs" "queue_depth pargs \<le> 2147483647"
  shows "shm_seg w' = None \<and> sems w' mutex_sem = None \<and> sems w' empty_sem = None
       \<and> sems w' full_sem = None
       \<and> (\<exists>s. run_events w (consumer_shared_memory cargs w) =
             [SemWait full_sem, SemWait mutex_sem, ReadMessage s, SetIsEmpty 1,
              SemPost mutex_sem, SemPost empty_sem, ShmRemove, SemUnlink mutex_sem,
              SemUnlink empty_sem, SemUnlink full_sem])
       \<and> (\<exists>w''. producer_shared_memory pargs w' = (Return, w'')
              \<and> shm_seg w'' =
                  Some \<lparr>message = store_str (replicate MAX_MESSAGE_LENGTH NUL) msg, is_empty = 0\<rparr>
              \<and> sems w'' mutex_sem = Some 1
              \<and> sems w'' empty_sem = Some (nat (queue_depth pargs) - 1)
              \<and> sems w'' full_sem = Some 1)"
  using c
proof (rule consumer_shared_memory_Return)
  fix s
  assume ok: "ftok_ok w" "shmget_ok w" "shmat_ok w"
    and w': "w' = w\<lparr>shm_seg := None,
             sems := (sems w)(mutex_sem := None, empty_sem := None, full_sem := None),
             stdout := stdout w @ (if enable_echo cargs then s @ [NL] else []),
             trace := trace w @ [SemWait full_sem, SemWait mutex_sem, ReadMessage s,
                                 SetIsEmpty 1, SemPost mutex_sem, SemPost empty_sem,
                                 ShmRemove, SemUnlink mutex_sem, SemUnlink empty_sem,
                                 SemUnlink full_sem]\<rparr>"
  have gone: "shm_seg w' = None" "sems w' mutex_sem = None" "sems w' empty_sem = None"
    "sems w' full_sem = None"
    by (simp_all add: w')
  have ok': "ftok_ok w'" "shmget_ok w'" "shmat_ok w'"
    using ok by (simp_all add: w')
  have ev: "run_events w (consumer_shared_memory cargs w) =
             [SemWait full_sem, SemWait mutex_sem, ReadMessage s, SetIsEmpty 1,
              SemPost mutex_sem, SemPost empty_sem, ShmRemove, SemUnlink mutex_sem,
              SemUnlink empty_sem, SemUnlink full_sem]"
    by (simp add: c run_events_def w')
  have p: "producer_shared_memory pargs w' =
    (Return,
     w'\<lparr>shm_seg := Some \<lparr>message = store_str (replicate MAX_MESSAGE_LENGTH NUL) msg, is_empty = 0\<rparr>,
       sems := (sems w')(empty_sem \<mapsto> nat (queue_depth pargs) - 1, mutex_sem \<mapsto> 1, full_sem \<mapsto> 1),
       stdout := stdout w' @ (if enable_echo pargs then msg @ [NL] else []),
       trace := trace w' @ [SemWait empty_sem, SemWait mutex_sem, WriteMessage msg,
                           SetIsEmpty 0, SemPost mutex_sem, SemPost full_sem]\<rparr>)"
    using ok' gone msg depth by (rule producer_from_clean)
  show ?thesis
    using gone ev by (simp add: p)
qed

theorem consumer_removes_named_objects_witness:
  "fst (consumer_shared_memory echo_consumer hello_posted) = Return
   \<and> length ''hello'' < MAX_MESSAGE_LENGTH
   \<and> shm_seg (snd (consumer_shared_memory echo_consumer hello_posted)) = None
   \<and> sems (snd (consumer_shared_memory echo_consumer hello_posted)) mutex_sem = None
   \<and> sems (snd (consumer_shared_memory echo_consumer hello_posted)) empty_sem = None
   \<and> sems (snd (consumer_shared_memory echo_consumer hello_posted)) full_sem = None
   \<and> (\<exists>w''. producer_shared_memory hello_producer
                (snd (consumer_shared_memory echo_consumer hello_posted)) = (Return, w'')
              \<and> sems w'' mutex_sem = Some 1
              \<and> sems w'' empty_sem = Some 0
              \<and> sems w'' full_sem = Some 1)"
proof -
  have c: "consumer_shared_memory echo_consumer hello_posted =
           (Return, snd (consumer_shared_memory echo_consumer hello_posted))"
    using echo_consumer_returns by (simp add: prod_eq_iff)
  show ?thesis
    using consumer_removes_named_objects[OF c, of hello_producer "''hello''"] echo_consumer_returns
    by (auto simp: hello_producer_def args_zero_def NUL_def MAX_MESSAGE_LENGTH_def)
qed

text \<open>
  C5, as the code has it. The consumer creates none of the named objects: a semaphore or
  a segment that does not exist before a consumer run does not exist after it, and
  without a segment the run ends with status 1. The producer creates what is absent: after
  a producer run that got past \<open>shmat\<close>, with a queue depth \<open>sem_open\<close> accepts, the segment
  and the three semaphores exist. An object that exists is opened as it is, by
  \<open>shmget\<close> with or without \<open>IPC_CREAT\<close> and by \<open>sem_open\<close> with or without \<open>O_CREAT\<close>.
\<close>

theorem named_objects_created_by_producer_only:
  "(shm_seg w = None \<longrightarrow>
      fst (consumer_shared_memory a w) = Exit 1
    \<and> shm_seg (snd (consumer_shared_memory a w)) = None)
   \<and> (sems w n = None \<longrightarrow> sems (snd (consumer_shared_memory a w)) n = None)
   \<and> (ftok_ok w' \<and> shmget_ok w' \<and> shmat_ok w'
        \<and> nat (queue_depth a' mod 2 ^ 32) \<le> SEM_VALUE_MAX \<longrightarrow>
      shm_seg (snd (producer_shared_memory a' w')) \<noteq> None
    \<and> sems (snd (producer_shared_memory a' w')) mutex_sem \<noteq> None
    \<and> sems (snd (producer_shared_memory a' w')) empty_sem \<noteq> None
    \<and> sems (snd (producer_shared_memory a' w')) full_sem \<noteq> None)
   \<and> (shmget_ok w'' \<and> shm_seg w'' = Some q \<longrightarrow>
      shmget_creat w'' = Some w'' \<and> shmget_existing w'' = Some w'')
   \<and> (sems w'' n' = Some c \<longrightarrow>
      sems (snd (producer_sem_open a' w'')) n' = Some c
    \<and> sems (snd (consumer_sem_open w'')) n' = Some c)"
proof (intro conjI impI)
  assume "shm_seg w = None"
  then show "fst (consumer_shared_memory a w) = Exit 1"
    by (simp add: consumer_shared_memory_def shmget_existing_eq)
next
  assume "shm_seg w = None"
  then show "shm_seg (snd (consumer_shared_memory a w)) = None"
    using consumer_creates_nothing by blast
next
  assume "sems w n = None"
  then show "sems (snd (consumer_shared_memory a w)) n = None"
    using consumer_creates_nothing by blast
next
  assume h: "ftok_ok w' \<and> shmget_ok w' \<and> shmat_ok w'
        \<and> nat (queue_depth a' mod 2 ^ 32) \<le> SEM_VALUE_MAX"
  then show "shm_seg (snd (producer_shared_memory a' w')) \<noteq> None"
    "sems (snd (producer_shared_memory a' w')) mutex_sem \<noteq> None"
    "sems (snd (producer_shared_memory a' w')) empty_sem \<noteq> None"
    "sems (snd (producer_shared_memory a' w')) full_sem \<noteq> None"
    by (simp_all add: producer_leaves_named_objects)
next
  assume h: "shmget_ok w'' \<and> shm_seg w'' = Some q"
  then show "shmget_creat w'' = Some w''" "shmget_existing w'' = Some w''"
    by (simp_all add: shmget_creat_def shmget_existing_def)
next
  assume h: "sems w'' n' = Some c"
  then show "sems (snd (producer_sem_open a' w'')) n' = Some c"
    by (auto simp: producer_sem_open_eq)
  show "sems (snd (consumer_sem_open w'')) n' = Some c"
    using h by (simp add: consumer_sem_open_eq)
qed

theorem named_objects_created_by_producer_only_witness:
  "shm_seg fresh_world = None \<and> sems fresh_world full_sem = None
   \<and> fst (consumer_shared_memory echo_consumer fresh_world) = Exit 1
   \<and> sems (snd (consumer_shared_memory echo_consumer fresh_world)) full_sem = None
   \<and> shm_seg (snd (producer_shared_memory hello_producer fresh_world)) \<noteq> None
   \<and> sems (snd (producer_shared_memory hello_producer fresh_world)) empty_sem \<noteq> None
   \<and> sems hello_posted full_sem = Some 1
   \<and> shmget_creat hello_posted = Some hello_posted
   \<and> shmget_existing hello_posted = Some hello_posted
   \<and> sems (snd (producer_sem_open hello_producer hello_posted)) full_sem = Some 1"
  using named_objects_created_by_producer_only[of fresh_world echo_consumer full_sem
      fresh_world hello_producer hello_posted
      "\<lparr>message = store_str (replicate MAX_MESSAGE_LENGTH NUL) ''hello'', is_empty = 0\<rparr>"
      full_sem 1]
  by (simp add: fresh_world_def hello_posted_eq(2) hello_producer_def args_zero_def
      SEM_VALUE_MAX_def)

text \<open>
  C5 as stated says that whichever process runs first creates the objects. A consumer that
  runs first, with none of them there, ends with status 1 and has created nothing.
\<close>

theorem consumer_first_creates_nothing:
  "fst (consumer_shared_memory echo_consumer fresh_world) = Exit 1
   \<and> shm_seg (snd (consumer_shared_memory echo_consumer fresh_world)) = None
   \<and> sems (snd (consumer_shared_memory echo_consumer fresh_world)) mutex_sem = None
   \<and> sems (snd (consumer_shared_memory echo_consumer fresh_world)) empty_sem = None
   \<and> sems (snd (consumer_shared_memory echo_consumer fresh_world)) full_sem = None"
  by (simp add: consumer_shared_memory_def shmget_existing_eq perror_def fresh_world_def)

section \<open>Failures of the semaphore calls\<close>

text \<open>
  C6. The segment exists and the semaphores do not (a producer has got as far as \<open>shmget\<close>
  and not yet to \<open>sem_open\<close>): the consumer's \<open>sem_open\<close> calls return \<open>SEM_FAILED\<close>, the
  results are not tested, and \<open>sem_wait\<close> is called on \<open>SEM_FAILED\<close>. The run does not end
  with a diagnostic and status 1.
\<close>

theorem consumer_without_semaphores_faults:
  "fst (consumer_shared_memory echo_consumer (fresh_world\<lparr>shm_seg := Some new_Queue\<rparr>))
     = Undefined BadSemHandle"
  by (simp add: consumer_shared_memory_def shmget_existing_eq consumer_sem_open_eq
      consumer_transfer_def sem_wait_def fresh_world_def)

text \<open>
  C7. The same start through \<open>main\<close>: a semaphore that cannot be opened is not reported,
  nothing is printed, and the process does not exit with status 1.
\<close>

theorem unopened_semaphore_not_reported:
  "main [Opt_c, Opt_s, Opt_m ''x'', Opt_q ''1''] (fresh_world\<lparr>shm_seg := Some new_Queue\<rparr>)
     = (Undefined BadSemHandle, fresh_world\<lparr>shm_seg := Some new_Queue\<rparr>)"
  by (simp add: main_def parse_arguments_def args_zero_def atoi_def strtol_def isspace_def
      isdigit_def consumer_shared_memory_def shmget_existing_eq consumer_sem_open_eq
      consumer_transfer_def sem_wait_def fresh_world_def)

text \<open>
  The results of \<open>sem_wait\<close> and \<open>sem_post\<close> are not tested either: with \<open>full\<close> at
  \<open>SEM_VALUE_MAX\<close> the producer's \<open>sem_post(full)\<close> returns -1 and the run returns as if it
  had succeeded.
\<close>

lemma sem_post_error_not_reported:
  "sem_post (Some full_sem) (fresh_world\<lparr>sems := (sems fresh_world)(full_sem \<mapsto> SEM_VALUE_MAX)\<rparr>)
     = Inr (- 1, fresh_world\<lparr>sems := (sems fresh_world)(full_sem \<mapsto> SEM_VALUE_MAX),
                             trace := [SemPost full_sem]\<rparr>)"
  "fst (producer_shared_memory hello_producer
          (fresh_world\<lparr>sems := (sems fresh_world)(full_sem \<mapsto> SEM_VALUE_MAX)\<rparr>)) = Return"
proof -
  show "sem_post (Some full_sem) (fresh_world\<lparr>sems := (sems fresh_world)(full_sem \<mapsto> SEM_VALUE_MAX)\<rparr>)
     = Inr (- 1, fresh_world\<lparr>sems := (sems fresh_world)(full_sem \<mapsto> SEM_VALUE_MAX),
                             trace := [SemPost full_sem]\<rparr>)"
    by (simp add: sem_post_def fresh_world_def)
  have "NUL \<notin> set ''hello''"
    by (simp add: NUL_def)
  then have s: "strcpy MAX_MESSAGE_LENGTH (''hello'' @ [NUL]) = Some ''hello''"
    by (subst strcpy_terminated) (simp_all add: MAX_MESSAGE_LENGTH_def)
  show "fst (producer_shared_memory hello_producer
          (fresh_world\<lparr>sems := (sems fresh_world)(full_sem \<mapsto> SEM_VALUE_MAX)\<rparr>)) = Return"
    by (subst producer_shared_memory_run[where msg = "''hello''" and s = "''hello''"
          and ce = 0 and cm = 0 and cf = SEM_VALUE_MAX])
       (use s in \<open>simp_all add: fresh_world_def hello_producer_def args_zero_def SEM_VALUE_MAX_def\<close>)
qed

section \<open>Invalid command lines\<close>

lemma getopt_loop_Inl: "getopt_loop opts a = Inl line \<Longrightarrow> has_unknown opts"
  by (induction opts a rule: getopt_loop.induct) auto

lemma getopt_loop_Inr:
  "getopt_loop opts a = Inr b \<Longrightarrow>
     \<not> has_unknown opts
   \<and> is_producer b = (is_producer a \<or> Opt_p \<in> set opts)
   \<and> is_consumer b = (is_consumer a \<or> Opt_c \<in> set opts)
   \<and> use_socket b = (use_socket a \<or> Opt_u \<in> set opts)
   \<and> use_shared_memory b = (use_shared_memory a \<or> Opt_s \<in> set opts)
   \<and> (Arguments.message b = None) = (Arguments.message a = None \<and> \<not> has_m opts)
   \<and> queue_depth b = (case last_q opts of None \<Rightarrow> queue_depth a | Some s \<Rightarrow> atoi s)"
  by (induction opts a rule: getopt_loop.induct) (auto split: option.splits)

text \<open>
  Where the number a text denotes is in the range of \<open>int\<close>, \<open>atoi\<close> returns it.
\<close>

lemma strtol_denoted_int:
  "strtol s = max (- (2 ^ 63)) (min (2 ^ 63 - 1) (denoted_int s))"
  by (simp add: strtol_def denoted_int_def Let_def)

lemma atoi_in_range:
  assumes "- (2 ^ 31) \<le> denoted_int s" "denoted_int s \<le> 2 ^ 31 - 1"
  shows "atoi s = denoted_int s"
proof -
  have "strtol s = denoted_int s"
    using assms by (simp add: strtol_denoted_int)
  moreover have "(denoted_int s + 2 ^ 31) mod 2 ^ 32 = denoted_int s + 2 ^ 31"
    using assms by (intro mod_pos_pos_trivial) simp_all
  ultimately show ?thesis
    by (simp add: atoi_def)
qed

text \<open>
  C9, as the code has it. For every list of options that breaks a rule of the command
  line, where a missing message is the absence of \<open>-m\<close> and a non-positive queue depth is
  an argument that denotes a number from \<open>- 2 ^ 31\<close> to 0, the program writes at least one
  diagnostic on the standard error stream and exits with status 1; nothing else in the
  system changes, so no transfer has begun.
\<close>

theorem invalid_arguments_rejected:
  assumes "cli_violation opts"
  shows "\<exists>msgs. msgs \<noteq> [] \<and> main opts w = (Exit 1, w\<lparr>stderr := stderr w @ msgs\<rparr>)"
proof (cases "getopt_loop opts args_zero")
  case (Inl line)
  then have "main opts w =
      (Exit 1,
       w\<lparr>stderr := stderr w @ [line, ''Usage: %s -p|-c -m message -q depth -u|-s [-e]'']\<rparr>)"
    by (simp add: main_def parse_arguments_def fprintf_stderr_def)
  then have "[line, ''Usage: %s -p|-c -m message -q depth -u|-s [-e]''] \<noteq> []
     \<and> main opts w =
      (Exit 1,
       w\<lparr>stderr := stderr w @ [line, ''Usage: %s -p|-c -m message -q depth -u|-s [-e]'']\<rparr>)"
    by simp
  then show ?thesis by (rule exI)
next
  case (Inr b)
  note f = getopt_loop_Inr[OF Inr]
  define msg where "msg =
     (if Arguments.message b = None then ''Error: Message (-m) is required''
      else if queue_depth b \<le> 0 then ''Error: Queue depth (-q) must be positive''
      else if \<not> (is_producer b \<noteq> is_consumer b)
      then ''Error: Must specify exactly one of -p or -c''
      else if use_socket b \<and> use_shared_memory b
      then ''Error: Cannot use both socket and shared memory''
      else ''Error: Must specify either -u or -s'')"
  have depth: "queue_depth b \<le> 0"
    if "case last_q opts of
          None \<Rightarrow> True
        | Some optarg \<Rightarrow> - (2 ^ 31) \<le> denoted_int optarg \<and> denoted_int optarg \<le> 0"
  proof (cases "last_q opts")
    case None
    then show ?thesis using f by (simp add: args_zero_def)
  next
    case (Some optarg)
    with that have r: "- (2 ^ 31) \<le> denoted_int optarg" "denoted_int optarg \<le> 0"
      by simp_all
    then have "atoi optarg = denoted_int optarg"
      by (intro atoi_in_range) simp_all
    then show ?thesis using f Some r by simp
  qed
  from assms f depth have bad:
    "Arguments.message b = None \<or> queue_depth b \<le> 0
     \<or> \<not> (is_producer b \<noteq> is_consumer b)
     \<or> (use_socket b \<and> use_shared_memory b) \<or> (\<not> use_socket b \<and> \<not> use_shared_memory b)"
    unfolding cli_violation_def by (auto simp: args_zero_def)
  have "main opts w = (Exit 1, w\<lparr>stderr := stderr w @ [msg]\<rparr>)"
  proof (cases "Arguments.message b = None \<or> queue_depth b \<le> 0")
    case True
    then show ?thesis
      using Inr by (auto simp: main_def parse_arguments_def fprintf_stderr_def msg_def)
  next
    case False
    then have p: "parse_arguments opts args_zero w = Inr b"
      using Inr by (simp add: parse_arguments_def)
    show ?thesis
      using bad False by (auto simp: main_def p fprintf_stderr_def msg_def)
  qed
  then have "[msg] \<noteq> [] \<and> main opts w = (Exit 1, w\<lparr>stderr := stderr w @ [msg]\<rparr>)"
    by simp
  then show ?thesis by (rule exI)
qed

theorem invalid_arguments_rejected_witness:
  "cli_violation [Opt_p, Opt_s, Opt_m ''hello'', Opt_q ''0'']
   \<and> (\<exists>msgs. msgs \<noteq> []
         \<and> main [Opt_p, Opt_s, Opt_m ''hello'', Opt_q ''0''] fresh_world
            = (Exit 1, fresh_world\<lparr>stderr := stderr fresh_world @ msgs\<rparr>))"
proof -
  have v: "cli_violation [Opt_p, Opt_s, Opt_m ''hello'', Opt_q ''0'']"
    by (simp add: cli_violation_def denoted_int_def isspace_def isdigit_def)
  show ?thesis
    using v invalid_arguments_rejected[OF v, of fresh_world] by simp
qed

text \<open>
  With an unknown option the standard error stream holds the line of \<open>getopt\<close> and then
  the usage line.
\<close>

lemma unknown_option_diagnostics:
  "main [Opt_p, Opt_unknown line, Opt_s] w =
     (Exit 1,
      w\<lparr>stderr := stderr w @ [line, ''Usage: %s -p|-c -m message -q depth -u|-s [-e]'']\<rparr>)"
  by (simp add: main_def parse_arguments_def fprintf_stderr_def)

text \<open>
  A depth argument below the range of \<open>int\<close> is outside the rule above. The \<open>atoi\<close> modelled
  here cuts \<open>-2147483649\<close> to \<open>2147483647\<close>, and the test \<open>queue_depth <= 0\<close>, which reads the
  converted value, lets it pass: the producer runs with a negative depth on its command
  line, against the program's own diagnostic for that test.
\<close>

lemma queue_depth_below_int_range_passes:
  "denoted_int ''-2147483649'' = - 2147483649"
  "atoi ''-2147483649'' = 2147483647"
  "fst (main [Opt_p, Opt_s, Opt_m ''hello'', Opt_q ''-2147483649''] fresh_world) = Exit 0"
proof -
  show d: "denoted_int ''-2147483649'' = - 2147483649"
    by (simp add: denoted_int_def isspace_def isdigit_def)
  show a: "atoi ''-2147483649'' = 2147483647"
    by (simp add: atoi_def strtol_denoted_int d)
  define args where "args = args_zero\<lparr>is_producer := True, Arguments.message := Some ''hello'',
                      queue_depth := 2147483647, use_shared_memory := True\<rparr>"
  have p: "parse_arguments [Opt_p, Opt_s, Opt_m ''hello'', Opt_q ''-2147483649''] args_zero
             fresh_world = Inr args"
    by (simp add: parse_arguments_def a) (simp add: args_zero_def args_def)
  have "fst (producer_shared_memory args fresh_world) = Return"
    by (subst producer_from_clean[where msg = "''hello''"])
       (simp_all add: fresh_world_def args_def args_zero_def NUL_def MAX_MESSAGE_LENGTH_def)
  then obtain w' where r: "producer_shared_memory args fresh_world = (Return, w')"
    by (metis prod.collapse)
  show "fst (main [Opt_p, Opt_s, Opt_m ''hello'', Opt_q ''-2147483649''] fresh_world) = Exit 0"
    by (simp add: main_def p r) (simp add: args_def args_zero_def)
qed

text \<open>
  C9 as stated also rejects an empty message text. \<open>parse_arguments\<close> tests the \<open>message\<close>
  pointer only: \<open>-p -s -m "" -q 1\<close> passes, and the empty string is written to the mailbox.
\<close>

theorem empty_message_is_transferred:
  "fst (main [Opt_p, Opt_s, Opt_m [], Opt_q ''1''] fresh_world) = Exit 0
   \<and> run_events fresh_world (main [Opt_p, Opt_s, Opt_m [], Opt_q ''1''] fresh_world) =
       [SemWait empty_sem, SemWait mutex_sem, WriteMessage [], SetIsEmpty 0,
        SemPost mutex_sem, SemPost full_sem]"
proof -
  define a where "a = args_zero\<lparr>is_producer := True, Arguments.message := Some [],
                      queue_depth := 1, use_shared_memory := True\<rparr>"
  have p: "parse_arguments [Opt_p, Opt_s, Opt_m [], Opt_q ''1''] args_zero fresh_world = Inr a"
    by (simp add: parse_arguments_def args_zero_def atoi_def strtol_def isspace_def isdigit_def
        a_def)
  have r: "producer_shared_memory a fresh_world =
    (Return,
     fresh_world\<lparr>shm_seg := Some \<lparr>message = store_str (replicate MAX_MESSAGE_LENGTH NUL) [], is_empty = 0\<rparr>,
       sems := (sems fresh_world)(empty_sem \<mapsto> nat (queue_depth a) - 1, mutex_sem \<mapsto> 1, full_sem \<mapsto> 1),
       stdout := stdout fresh_world @ (if enable_echo a then [] @ [NL] else []),
       trace := trace fresh_world @ [SemWait empty_sem, SemWait mutex_sem, WriteMessage [],
                           SetIsEmpty 0, SemPost mutex_sem, SemPost full_sem]\<rparr>)"
    by (rule producer_from_clean)
       (simp_all add: fresh_world_def a_def args_zero_def MAX_MESSAGE_LENGTH_def)
  show ?thesis
    by (simp add: main_def p r run_events_def) (simp add: a_def args_zero_def fresh_world_def)
qed

section \<open>Messages longer than the buffers\<close>

text \<open>
  The socket consumer returns when fewer than \<open>MAX_MESSAGE_LENGTH\<close> bytes are queued, and
  writes past its buffer otherwise. The shared-memory producer, where it creates the
  semaphores, writes past the mailbox for every message of \<open>MAX_MESSAGE_LENGTH\<close> bytes or
  more.
\<close>

lemma consumer_socket_outcome:
  assumes "socket_ok w" "bind_ok w" "listen_ok w" "client w = Delivers queued"
  shows "fst (consumer_socket a w) =
           (if length queued < MAX_MESSAGE_LENGTH then Return else Undefined BufferOverflow)"
  using assms
  by (simp add: consumer_socket_def recv_def index_in_bounds_def Let_def)

lemma producer_overflow:
  assumes "ftok_ok w" "shmget_ok w" "shmat_ok w"
    and "sems w mutex_sem = None" "sems w empty_sem = None" "sems w full_sem = None"
    and "Arguments.message a = Some msg" "NUL \<notin> set msg" "MAX_MESSAGE_LENGTH \<le> length msg"
    and "0 < queue_depth a" "queue_depth a \<le> 2147483647"
  shows "fst (producer_shared_memory a w) = Undefined BufferOverflow"
proof -
  have "strcpy MAX_MESSAGE_LENGTH (msg @ [NUL]) = None"
    using assms(8,9) by (simp add: strcpy_terminated)
  moreover have "nat (queue_depth a mod 2 ^ 32) = nat (queue_depth a)"
    using assms(10,11) by simp
  moreover have "nat (queue_depth a) \<le> SEM_VALUE_MAX" "0 < nat (queue_depth a)"
    using assms(10,11) by (auto simp: SEM_VALUE_MAX_def)
  ultimately show ?thesis
    using assms(1-7)
    by (simp add: producer_shared_memory_def shmget_creat_eq producer_sem_open_eq
        producer_transfer_def sem_wait_def)
qed

text \<open>
  C10. The socket consumer passes \<open>sizeof(buffer)\<close>, 1024, to \<open>recv\<close> and then writes the
  terminating zero at index \<open>received\<close>. With 1024 bytes queued on the connection \<open>recv\<close>
  returns 1024, and index 1024 is not an index of the 1024-byte array: the write is one
  past its end.
\<close>

theorem consumer_socket_terminator_out_of_bounds:
  "length (recv (replicate 1024 (CHR ''a'')) MAX_MESSAGE_LENGTH) = 1024
   \<and> \<not> index_in_bounds 1024 MAX_MESSAGE_LENGTH
   \<and> fst (consumer_socket args_zero (fresh_world\<lparr>client := Delivers (replicate 1024 (CHR ''a''))\<rparr>))
       = Undefined BufferOverflow"
  by (simp add: consumer_socket_def recv_def index_in_bounds_def MAX_MESSAGE_LENGTH_def
      fresh_world_def)

text \<open>
  C8. A message of 1025 bytes is not cut to the size of the buffers. The shared-memory
  producer copies it with \<open>strcpy\<close>, 1026 bytes into the 1024-byte \<open>message\<close> array of the
  mailbox; the socket consumer receives 1024 of its bytes and writes the terminator past
  the end of its buffer.
\<close>

theorem overlong_message_overflows:
  "fst (producer_shared_memory
          (args_zero\<lparr>Arguments.message := Some (replicate 1025 (CHR ''a'')), queue_depth := 1\<rparr>)
          fresh_world) = Undefined BufferOverflow
   \<and> fst (consumer_socket args_zero (fresh_world\<lparr>client := Delivers (replicate 1025 (CHR ''a''))\<rparr>))
       = Undefined BufferOverflow"
  by (simp add: producer_shared_memory_def producer_transfer_def producer_sem_open_def
      shmget_creat_def sem_open_creat_def sem_wait_def strcpy_terminated
      consumer_socket_def recv_def index_in_bounds_def MAX_MESSAGE_LENGTH_def
      SEM_VALUE_MAX_def fresh_world_def args_zero_def)

end
